theory Spec2Isabelle
  imports Complex_Main
begin

section \<open>JavaScript values\<close>

text \<open>
  The backend is JavaScript. The values that flow through the modelled code are the trees
  that the XML parser hands to the Form 990 mapper, and the nullable numbers of the stored
  organization rows. A tree is a \<open>jsval\<close>; an object is an association list (the first
  binding of a key is the one that counts). Numeric leaves are integers.
  Finite numbers are exact rationals, so the rounding of doubles is outside the model;
  \<open>NaN\<close> and the two infinities are values of \<open>jsnumber\<close>, for the arithmetic of the read
  endpoints, where a division by zero produces them.
\<close>

datatype jsval =
    JUndefined
  | JNull
  | JBool bool
  | JNum int
  | JStr string
  | JArr "jsval list"
  | JObj "(string \<times> jsval) list"

datatype error = Error string | TypeError string

fun message :: "error \<Rightarrow> string" where
  "message (Error m) = m"
| "message (TypeError m) = m"

text \<open>Truthiness, as \<open>!value\<close>, \<open>a || b\<close> and \<open>if (value)\<close> test it.\<close>

fun truthy :: "jsval \<Rightarrow> bool" where
  "truthy JUndefined = False"
| "truthy JNull = False"
| "truthy (JBool b) = b"
| "truthy (JNum n) = (n \<noteq> 0)"
| "truthy (JStr s) = (s \<noteq> [])"
| "truthy (JArr xs) = True"
| "truthy (JObj kvs) = True"

definition js_or :: "jsval \<Rightarrow> jsval \<Rightarrow> jsval" where
  "js_or a b = (if truthy a then a else b)"

fun nullish :: "jsval \<Rightarrow> bool" where
  "nullish JUndefined = True"
| "nullish JNull = True"
| "nullish v = False"

text \<open>
  Property read \<open>v.k\<close> and \<open>v?.k\<close>. On an object it is the lookup; on a string, number,
  boolean or array none of the keys the code asks for exists, so the result is
  \<open>undefined\<close>. On \<open>null\<close> and \<open>undefined\<close> the optional form \<open>v?.k\<close> gives \<open>undefined\<close>;
  the plain form throws there, and each function below that reads a property of a
  possibly nullish argument tests the argument first and returns the TypeError.
\<close>

fun get :: "jsval \<Rightarrow> string \<Rightarrow> jsval" where
  "get (JObj kvs) k = (case map_of kvs k of Some v \<Rightarrow> v | None \<Rightarrow> JUndefined)"
| "get v k = JUndefined"

text \<open>
  The values of type \<open>number\<close>, with \<open>a / b\<close> on two finite numbers, \<open>x * c\<close> by a finite
  number, \<open>a > b\<close>, \<open>a >= b\<close> (every comparison with \<open>NaN\<close> is false) and \<open>Math.abs\<close>.
\<close>

datatype jsnumber = Finite rat | NaN | PlusInfinity | MinusInfinity

definition numDivide :: "rat \<Rightarrow> rat \<Rightarrow> jsnumber" where
  "numDivide a b =
     (if b \<noteq> 0 then Finite (a / b)
      else if a > 0 then PlusInfinity
      else if a < 0 then MinusInfinity
      else NaN)"

fun numTimes :: "jsnumber \<Rightarrow> rat \<Rightarrow> jsnumber" where
  "numTimes (Finite x) c = Finite (x * c)"
| "numTimes NaN c = NaN"
| "numTimes PlusInfinity c = (if c > 0 then PlusInfinity else if c < 0 then MinusInfinity else NaN)"
| "numTimes MinusInfinity c = (if c > 0 then MinusInfinity else if c < 0 then PlusInfinity else NaN)"

fun numGreater :: "jsnumber \<Rightarrow> jsnumber \<Rightarrow> bool" where
  "numGreater (Finite a) (Finite b) = (a > b)"
| "numGreater PlusInfinity (Finite b) = True"
| "numGreater PlusInfinity MinusInfinity = True"
| "numGreater (Finite a) MinusInfinity = True"
| "numGreater a b = False"

fun numGreaterEq :: "jsnumber \<Rightarrow> jsnumber \<Rightarrow> bool" where
  "numGreaterEq NaN b = False"
| "numGreaterEq a NaN = False"
| "numGreaterEq (Finite a) (Finite b) = (a \<ge> b)"
| "numGreaterEq PlusInfinity b = True"
| "numGreaterEq a MinusInfinity = True"
| "numGreaterEq a b = False"

fun numAbs :: "jsnumber \<Rightarrow> jsnumber" where
  "numAbs (Finite x) = Finite (abs x)"
| "numAbs NaN = NaN"
| "numAbs PlusInfinity = PlusInfinity"
| "numAbs MinusInfinity = PlusInfinity"

text \<open>\<open>ToNumber\<close> of a number that may be \<open>null\<close>: \<open>null\<close> counts as 0 in comparisons.\<close>

fun num :: "jsnumber option \<Rightarrow> jsnumber" where
  "num None = Finite 0"
| "num (Some x) = x"

section \<open>dataHelper.js: the field extractor\<close>

text \<open>
  \<open>String(v)\<close> and the \<open>${v}\<close> of a template literal. A number prints as its decimal
  digits (JavaScript does so for integers below \<open>10\<^sup>2\<^sup>1\<close> in magnitude).
\<close>

definition digitChar :: "int \<Rightarrow> char" where
  "digitChar d = ''0123456789'' ! nat d"

function digitsOf :: "int \<Rightarrow> string" where
  "digitsOf n = (if n < 10 then [digitChar n] else digitsOf (n div 10) @ [digitChar (n mod 10)])"
  by pat_completeness auto
termination
  by (relation "measure nat") auto

declare digitsOf.simps [simp del]

definition intToString :: "int \<Rightarrow> string" where
  "intToString i = (if i < 0 then CHR ''-'' # digitsOf (- i) else digitsOf i)"

fun joinWith :: "string \<Rightarrow> string list \<Rightarrow> string" where
  "joinWith sep [] = []"
| "joinWith sep [x] = x"
| "joinWith sep (x # y # ys) = x @ sep @ joinWith sep (y # ys)"

fun toString :: "jsval \<Rightarrow> string" where
  "toString JUndefined = ''undefined''"
| "toString JNull = ''null''"
| "toString (JBool b) = (if b then ''true'' else ''false'')"
| "toString (JNum n) = intToString n"
| "toString (JStr s) = s"
| "toString (JArr xs) = joinWith '','' (map (\<lambda>x. if nullish x then [] else toString x) xs)"
| "toString (JObj kvs) = ''[object Object]''"

text \<open>\<open>path.split('.')\<close>\<close>

fun split :: "char \<Rightarrow> string \<Rightarrow> string list" where
  "split c [] = [[]]"
| "split c (x # xs) =
     (if x = c then [] # split c xs
      else (case split c xs of [] \<Rightarrow> [[x]] | p # ps \<Rightarrow> (x # p) # ps))"

text \<open>
  \<open>getNestedValue\<close>: the reducer of \<open>path.split('.').reduce(...)\<close>, then \<open>?? defaultValue\<close>.
  An array is entered through its first element, \<open>acc[0]?.[part]\<close>.
\<close>

fun nestedStep :: "jsval \<Rightarrow> string \<Rightarrow> jsval" where
  "nestedStep (JArr xs) part = (case xs of [] \<Rightarrow> JUndefined | x # _ \<Rightarrow> get x part)"
| "nestedStep (JObj kvs) part = get (JObj kvs) part"
| "nestedStep acc part = JUndefined"

definition getNestedValue :: "jsval \<Rightarrow> string \<Rightarrow> jsval \<Rightarrow> jsval" where
  "getNestedValue obj path defaultValue =
     (let r = foldl nestedStep obj (split CHR ''.'' path)
      in if nullish r then defaultValue else r)"

fun extractText :: "jsval \<Rightarrow> jsval" where
  "extractText JUndefined = JNull"
| "extractText JNull = JNull"
| "extractText (JBool b) = (if b then JStr (toString (JBool b)) else JNull)"
| "extractText (JNum n) = (if n = 0 then JNull else JStr (toString (JNum n)))"
| "extractText (JStr s) = (if s = [] then JNull else JStr s)"
| "extractText (JArr xs) = js_or (js_or (get (JArr xs) ''_text'') (get (JArr xs) ''_'')) JNull"
| "extractText (JObj kvs) = js_or (js_or (get (JObj kvs) ''_text'') (get (JObj kvs) ''_'')) JNull"

text \<open>
  \<open>parseFloat\<close> on a string that \<open>replace(/[^0-9.-]/g, '')\<close> has already reduced to digits,
  dots and minus signs: an optional sign, digits, an optional dot and digits; the longest
  such prefix is the number, and \<open>None\<close> is \<open>NaN\<close> (no digit at all).
\<close>

definition isDigit :: "char \<Rightarrow> bool" where
  "isDigit c = (c \<in> set ''0123456789'')"

definition digitVal :: "char \<Rightarrow> int" where
  "digitVal c = of_char c - 48"

definition intOfDigits :: "string \<Rightarrow> int" where
  "intOfDigits ds = foldl (\<lambda>a c. 10 * a + digitVal c) 0 ds"

definition parseUnsigned :: "string \<Rightarrow> rat option" where
  "parseUnsigned s =
     (let ip = takeWhile isDigit s;
          rest = dropWhile isDigit s;
          fp = (case rest of c # r \<Rightarrow> (if c = CHR ''.'' then takeWhile isDigit r else []) | [] \<Rightarrow> [])
      in if ip = [] \<and> fp = [] then None
         else Some (of_int (intOfDigits ip) + of_int (intOfDigits fp) / 10 ^ length fp))"

fun parseFloat :: "string \<Rightarrow> rat option" where
  "parseFloat [] = None"
| "parseFloat (c # cs) =
     (if c = CHR ''-'' then map_option uminus (parseUnsigned cs)
      else parseUnsigned (c # cs))"

definition stripNonNumeric :: "string \<Rightarrow> string" where
  "stripNonNumeric s = filter (\<lambda>c. isDigit c \<or> c = CHR ''.'' \<or> c = CHR ''-'') s"

definition extractNumber :: "jsval \<Rightarrow> rat" where
  "extractNumber v =
     (let text = extractText v
      in if \<not> truthy text then 0
         else (case parseFloat (stripNonNumeric (toString text)) of
                 None \<Rightarrow> 0
               | Some n \<Rightarrow> n))"

text \<open>\<open>String.prototype.trim\<close>, on the ASCII white space.\<close>

definition isSpace :: "char \<Rightarrow> bool" where
  "isSpace c = (c \<in> set [CHR '' '', CHR 0x09, CHR 0x0A, CHR 0x0B, CHR 0x0C, CHR 0x0D])"

definition trim :: "string \<Rightarrow> string" where
  "trim s = rev (dropWhile isSpace (rev (dropWhile isSpace s)))"

section \<open>Column values\<close>

text \<open>
  The value of a column as the read endpoints receive it from \<open>company.toJSON()\<close>. The
  connection is made with \<open>dialect: 'mysql'\<close> and no option that turns decimals into
  numbers, so the driver hands an INTEGER column over as a number and a DECIMAL(15,2)
  column as a string with two fraction digits, such as \<open>'150000.00'\<close>; NULL is \<open>null\<close>.
  The string is \<open>CDecimal n\<close>, \<open>n\<close> being the count of hundredths that it spells, and
  \<open>decimalText n\<close> is the string itself.
\<close>

datatype colval = CNull | CNumber rat | CDecimal int

definition decimalText :: "int \<Rightarrow> string" where
  "decimalText n =
     (if n < 0 then ''-'' else []) @ digitsOf (abs n div 100) @ ''.''
       @ [digitChar (abs n mod 100 div 10), digitChar (abs n mod 10)]"

text \<open>\<open>ToNumber\<close> of a column value, as \<open>-\<close>, \<open>/\<close> and a comparison with a number apply it.\<close>

fun toNumber :: "colval \<Rightarrow> rat" where
  "toNumber CNull = 0"
| "toNumber (CNumber x) = x"
| "toNumber (CDecimal n) = of_int n / 100"

text \<open>The order of two strings: by their first differing character, a prefix first.\<close>

fun textLess :: "string \<Rightarrow> string \<Rightarrow> bool" where
  "textLess [] [] = False"
| "textLess [] (y # ys) = True"
| "textLess (x # xs) [] = False"
| "textLess (x # xs) (y # ys) =
     ((of_char x :: int) < of_char y \<or> (x = y \<and> textLess xs ys))"

text \<open>
  \<open>a > b\<close> on two column values: two strings are compared as text, any other pair as
  numbers.
\<close>

fun greater :: "colval \<Rightarrow> colval \<Rightarrow> bool" where
  "greater (CDecimal a) (CDecimal b) = textLess (decimalText b) (decimalText a)"
| "greater a b = (toNumber a > toNumber b)"

text \<open>
  What the database keeps of a number written to a DECIMAL(15,2) column (the nearest
  count of hundredths) and to an INTEGER column (the nearest integer), a half going away
  from zero.
\<close>

definition nearest :: "rat \<Rightarrow> int" where
  "nearest x = (if x \<ge> 0 then \<lfloor>x + 1 / 2\<rfloor> else - \<lfloor>- x + 1 / 2\<rfloor>)"

definition hundredths :: "rat \<Rightarrow> int" where
  "hundredths x = nearest (x * 100)"

section \<open>xmlParser.js: the Form 990 mapper\<close>

text \<open>A chain \<open>a || b || ... || z\<close>: the first truthy operand, else the last one.\<close>

fun orChain :: "jsval list \<Rightarrow> jsval" where
  "orChain [] = JUndefined"
| "orChain [x] = x"
| "orChain (x # y # ys) = (if truthy x then x else orChain (y # ys))"

text \<open>\<open>a || b\<close> on two numbers.\<close>

definition numOr :: "rat \<Rightarrow> rat \<Rightarrow> rat" where
  "numOr a b = (if a \<noteq> 0 then a else b)"

record financial_data =
  currentRevenue :: rat
  currentExpenses :: rat
  currentAssets :: rat
  currentEmployeeCount :: rat
  previousRevenue :: rat
  previousExpenses :: rat
  previousAssets :: rat
  previousEmployeeCount :: rat

record company_info =
  ein :: jsval
  name :: jsval
  formType :: string
  taxYear :: rat
  taxPeriodBegin :: jsval
  taxPeriodEnd :: jsval
  filingDate :: jsval
  website :: jsval
  mission :: jsval

text \<open>
  The canonical record \<open>{ ...companyData, ...financialData }\<close>: the two spread objects have
  no key in common, so the record is kept as its two parts.
\<close>

record company_data =
  info :: company_info
  financial :: financial_data

record personnel_data =
  fullName :: jsval
  title :: jsval
  compensation :: rat

record expense_data =
  category :: string
  amount :: rat

record parsed_data =
  company :: company_data
  personnel :: "personnel_data list"
  expenses :: "expense_data list"

definition extractCompanyInfo :: "int \<Rightarrow> jsval \<Rightarrow> jsval \<Rightarrow> error + company_info" where
  "extractCompanyInfo currentYear parsed irs990 =
     (if nullish parsed \<or> nullish irs990
      then Inl (TypeError ''Cannot read properties of undefined'')
      else
        let returnHeader = getNestedValue parsed ''Return.ReturnHeader'' (JObj []);
            filer = js_or (get returnHeader ''Filer'') (JObj []);
            returnData = get (get parsed ''Return'') ''ReturnData''
        in Inr \<lparr>
             company_info.ein = js_or (extractText (get filer ''EIN'')) JNull,
             name = orChain [extractText (get (get filer ''BusinessName'') ''BusinessNameLine1Txt''),
                             extractText (get (get filer ''Name'') ''BusinessNameLine1''),
                             JStr ''Unknown Organization''],
             formType = (if truthy (get returnData ''IRS990EZ'') then ''990EZ''
                         else if truthy (get returnData ''IRS990PF'') then ''990PF''
                         else if truthy (get returnData ''IRS990T'') then ''990T''
                         else ''990''),
             taxYear = numOr (extractNumber (get returnHeader ''TaxYr''))
                         (numOr (extractNumber (get returnHeader ''TaxYear'')) (of_int currentYear)),
             taxPeriodBegin = orChain [extractText (get returnHeader ''TaxPeriodBeginDt''),
                                       extractText (get returnHeader ''TaxPeriodBeginDate''), JNull],
             taxPeriodEnd = orChain [extractText (get returnHeader ''TaxPeriodEndDt''),
                                     extractText (get returnHeader ''TaxPeriodEndDate''), JNull],
             filingDate = orChain [extractText (get returnHeader ''ReturnTs''),
                                   extractText (get returnHeader ''ReturnTimestamp''), JNull],
             website = orChain [extractText (get irs990 ''WebsiteAddressTxt''),
                                extractText (get irs990 ''WebSite''), JNull],
             mission = orChain [extractText (get irs990 ''ActivityOrMissionDesc''),
                                extractText (get irs990 ''MissionDesc''), JNull]
           \<rparr>)"

definition extractFinancialData :: "jsval \<Rightarrow> error + financial_data" where
  "extractFinancialData irs990 =
     (if nullish irs990 then Inl (TypeError ''Cannot read properties of undefined'')
      else Inr \<lparr>
        financial_data.currentRevenue = extractNumber (orChain
          [get irs990 ''CYTotalRevenueAmt'',
           get irs990 ''TotalRevenueAmt'',
           get (get irs990 ''TotalRevenueGrp'') ''TotalRevenueColumnAmt'',
           get irs990 ''RevenueAmt'',
           get irs990 ''TotalRevenue'']),
        currentExpenses = extractNumber (orChain
          [get irs990 ''CYTotalExpensesAmt'',
           get irs990 ''TotalExpensesAmt'',
           get (get irs990 ''TotalExpensesGrp'') ''TotalExpensesColumnAmt'',
           get irs990 ''ExpensesAmt'',
           get irs990 ''TotalExpenses'']),
        currentAssets = extractNumber (orChain
          [get irs990 ''TotalAssetsEOYAmt'',
           get (get irs990 ''TotalAssetsGrp'') ''EOYAmt'',
           get (get irs990 ''Form990TotalAssetsGrp'') ''EOYAmt'',
           get irs990 ''TotalAssets'']),
        currentEmployeeCount = extractNumber (orChain
          [get irs990 ''TotalEmployeeCnt'',
           get irs990 ''TotalNbrEmployees'',
           get irs990 ''NumberOfEmployees'']),
        previousRevenue = extractNumber (orChain
          [get irs990 ''PYTotalRevenueAmt'',
           get (get irs990 ''TotalRevenueGrp'') ''PriorYearAmt'',
           JNum 0]),
        previousExpenses = extractNumber (orChain
          [get irs990 ''PYTotalExpensesAmt'',
           get (get irs990 ''TotalExpensesGrp'') ''PriorYearAmt'',
           JNum 0]),
        previousAssets = extractNumber (orChain
          [get irs990 ''TotalAssetsBOYAmt'',
           get (get irs990 ''TotalAssetsGrp'') ''BOYAmt'',
           get (get irs990 ''Form990TotalAssetsGrp'') ''BOYAmt'',
           JNum 0]),
        previousEmployeeCount = extractNumber (orChain
          [get irs990 ''PYTotalEmployeeCnt'',
           JNum 0])
      \<rparr>)"

text \<open>
  The callback of \<open>officers.forEach\<close>: the records it pushes for one entry (none or one).
\<close>

definition officerEntry :: "jsval \<Rightarrow> personnel_data list" where
  "officerEntry officer =
     (if \<not> truthy officer then []
      else
        let personName = orChain [get officer ''PersonNm'', get officer ''Name'',
                                  get officer ''PersonName''];
            fullNm = js_or (extractText personName)
                       (JStr (trim (toString (extractText (get personName ''FirstName''))
                                    @ '' ''
                                    @ toString (extractText (get personName ''LastName'')))));
            ttl = orChain [extractText (get officer ''TitleTxt''),
                           extractText (get officer ''Title''),
                           JStr ''Unknown''];
            reportableComp = extractNumber (orChain
              [get officer ''ReportableCompFromOrgAmt'',
               get officer ''TotalCompensationFilingOrgAmt'',
               get officer ''Compensation'',
               JNum 0]);
            otherComp = extractNumber (orChain [get officer ''OtherCompensationAmt'', JNum 0]);
            relatedComp = extractNumber (orChain
              [get officer ''ReportableCompFromRltdOrgAmt'', JNum 0]);
            comp = reportableComp + otherComp + relatedComp
        in if truthy fullNm \<and> fullNm \<noteq> JStr ''Unknown''
           then [\<lparr>personnel_data.fullName = fullNm, title = ttl, compensation = comp\<rparr>]
           else [])"

definition extractPersonnel :: "jsval \<Rightarrow> error + personnel_data list" where
  "extractPersonnel irs990 =
     (if nullish irs990 then Inl (TypeError ''Cannot read properties of undefined'')
      else
        let officersList = orChain [get irs990 ''Form990PartVIISectionAGrp'',
                                    get irs990 ''OfficerDirectorTrusteeEmplGrp'',
                                    get irs990 ''Officers'',
                                    JArr []];
            officers = (case officersList of JArr xs \<Rightarrow> xs | v \<Rightarrow> [v])
        in Inr (concat (map officerEntry officers)))"

text \<open>
  The object \<open>expenseCategories\<close> of \<open>extractExpenses\<close>, in the order of its keys: the
  category, then the three places its amount is looked for
  (\<open>irs990.A || irs990.G?.TotalAmt || irs990.C || 0\<close>).
\<close>

definition expenseCategories :: "(string \<times> string \<times> string \<times> string) list" where
  "expenseCategories =
    [(''Grants and similar amounts paid'',
        ''GrantsToDomesticOrgsAmt'', ''GrantsToDomesticOrgsGrp'', ''GrantsAndSimilarAmountsPaid''),
     (''Compensation of officers'',
        ''CompCurrentOfcrDirectorsAmt'', ''CompCurrentOfcrDirectorsGrp'', ''CompensationOfOfficers''),
     (''Other salaries and wages'',
        ''CompDisqualPersonsAmt'', ''OtherSalariesAndWagesGrp'', ''OtherSalariesAndWages''),
     (''Pension and benefits'',
        ''EmployeeBenefitsAmt'', ''PensionPlanContributionsGrp'', ''PensionPlanContributions''),
     (''Legal fees'',
        ''LegalFeesAmt'', ''FeesForServicesLegalGrp'', ''LegalFees''),
     (''Accounting fees'',
        ''AccountingFeesAmt'', ''FeesForServicesAccountingGrp'', ''AccountingFees''),
     (''Professional fundraising fees'',
        ''ProfessionalFundraisingAmt'', ''FundraisingFeesGrp'', ''FundraisingFees''),
     (''Other professional fees'',
        ''OtherProfessionalFeesAmt'', ''FeesForServicesOtherGrp'', ''OtherProfessionalFees''),
     (''Occupancy'',
        ''OccupancyAmt'', ''OccupancyGrp'', ''Occupancy''),
     (''Travel'',
        ''TravelAmt'', ''TravelGrp'', ''Travel''),
     (''Office expenses'',
        ''OfficeExpensesAmt'', ''OfficeExpensesGrp'', ''OfficeExpenses''),
     (''Depreciation'',
        ''DepreciationDepletionAmt'', ''DepreciationGrp'', ''Depreciation'')]"

definition expenseEntry :: "jsval \<Rightarrow> string \<times> string \<times> string \<times> string \<Rightarrow> expense_data list" where
  "expenseEntry irs990 e =
     (case e of (cat, a, g, c) \<Rightarrow>
        let amt = orChain [get irs990 a, get (get irs990 g) ''TotalAmt'', get irs990 c, JNum 0];
            expenseAmount = extractNumber amt
        in if expenseAmount > 0
           then [\<lparr>expense_data.category = cat, amount = expenseAmount\<rparr>]
           else [])"

definition extractExpenses :: "jsval \<Rightarrow> error + expense_data list" where
  "extractExpenses irs990 =
     (if nullish irs990 then Inl (TypeError ''Cannot read properties of undefined'')
      else Inr (concat (map (expenseEntry irs990) expenseCategories)))"

text \<open>
  \<open>parse\<close>. The library call \<open>this.parser.parse(xmlContent)\<close> is taken by its outcome: the
  tree it returns, or the exception it throws on markup it cannot read. Every exception
  inside \<open>parse\<close> is caught and turned into \<open>null\<close>, which is \<open>None\<close> here.
  \<open>currentYear\<close> is \<open>new Date().getFullYear()\<close>.
\<close>

definition parse :: "int \<Rightarrow> error + jsval \<Rightarrow> parsed_data option" where
  "parse currentYear xmlContent =
     (case xmlContent of
        Inl e \<Rightarrow> None
      | Inr parsed \<Rightarrow>
          if nullish parsed then None
          else
            let rd = getNestedValue parsed ''Return.ReturnData'' JNull;
                returnData = (if \<not> truthy rd then get parsed ''Return'' else rd)
            in if \<not> truthy returnData then None
               else
                 let irs990 = orChain [get returnData ''IRS990'', get returnData ''IRS990EZ'',
                                       get returnData ''IRS990PF'', get returnData ''IRS990T'']
                 in if \<not> truthy irs990 then None
                    else
                      (case extractCompanyInfo currentYear parsed irs990 of
                         Inl e \<Rightarrow> None
                       | Inr companyData \<Rightarrow>
                           if \<not> truthy (company_info.ein companyData) then None
                           else
                             (case extractFinancialData irs990 of
                                Inl e \<Rightarrow> None
                              | Inr financialData \<Rightarrow>
                                  (case extractPersonnel irs990 of
                                     Inl e \<Rightarrow> None
                                   | Inr ps \<Rightarrow>
                                       (case extractExpenses irs990 of
                                          Inl e \<Rightarrow> None
                                        | Inr es \<Rightarrow>
                                            Some \<lparr>company = \<lparr>info = companyData,
                                                              financial = financialData\<rparr>,
                                                  personnel = ps,
                                                  expenses = es\<rparr>)))))"

section \<open>The models and the persistence backend\<close>

text \<open>
  The rows of the three tables, with the columns the models declare (the timestamps and
  the primary keys of the two child tables are left out: nothing in the modelled code
  reads them). A numeric column of the organization table is kept as the value that
  reading it gives: \<open>CDecimal\<close> for the DECIMAL(15,2) columns, \<open>CNumber\<close> for the INTEGER
  columns, \<open>CNull\<close> for NULL. In the child tables a DECIMAL column is its count of
  hundredths and an INTEGER column its integer.
\<close>

text \<open>
  The objects that \<open>saveToDatabase\<close> hands to \<open>bulkCreate\<close>: a personnel or expense entry
  of the mapped record, spread, with \<open>companyId\<close> and \<open>taxYear\<close> added.
\<close>

record personnel_values =
  companyId :: nat
  fullName :: jsval
  title :: jsval
  compensation :: rat
  taxYear :: rat

record expense_values =
  companyId :: nat
  category :: string
  amount :: rat
  taxYear :: rat

record company_row =
  id' :: nat
  ein :: jsval
  name :: jsval
  website :: jsval
  mission :: jsval
  currentRevenue :: colval
  currentExpenses :: colval
  currentAssets :: colval
  currentEmployeeCount :: colval
  previousRevenue :: colval
  previousExpenses :: colval
  previousAssets :: colval
  previousEmployeeCount :: colval
  taxYear :: colval
  filingDate :: jsval

record personnel_row =
  companyId :: nat
  fullName :: jsval
  title :: jsval
  compensation :: int

record expense_row =
  companyId :: nat
  category :: string
  amount :: int
  taxYear :: int

record db =
  companies :: "company_row list"
  personnel :: "personnel_row list"
  expense_categories :: "expense_row list"
  nextId :: nat

text \<open>
  Modelled from the spec: the object-relational mapper (Sequelize) and the database are
  not part of the repository. \<open>Company.upsert\<close> with \<open>conflictFields: ['ein']\<close> is the
  upsert of the persistence contract: insert if no row has this \<open>ein\<close>, overwrite the
  scalar fields of the row that has it otherwise, and hand back the row with its
  identifier. A new row takes the next value of the auto-increment counter.
\<close>

definition toRow :: "nat \<Rightarrow> company_data \<Rightarrow> company_row" where
  "toRow i v =
     \<lparr>company_row.id' = i,
      ein = company_info.ein (info v),
      name = company_info.name (info v),
      website = company_info.website (info v),
      mission = company_info.mission (info v),
      currentRevenue = CDecimal (hundredths (financial_data.currentRevenue (financial v))),
      currentExpenses = CDecimal (hundredths (financial_data.currentExpenses (financial v))),
      currentAssets = CDecimal (hundredths (financial_data.currentAssets (financial v))),
      currentEmployeeCount =
        CNumber (of_int (nearest (financial_data.currentEmployeeCount (financial v)))),
      previousRevenue = CDecimal (hundredths (financial_data.previousRevenue (financial v))),
      previousExpenses = CDecimal (hundredths (financial_data.previousExpenses (financial v))),
      previousAssets = CDecimal (hundredths (financial_data.previousAssets (financial v))),
      previousEmployeeCount =
        CNumber (of_int (nearest (financial_data.previousEmployeeCount (financial v)))),
      taxYear = CNumber (of_int (nearest (company_info.taxYear (info v)))),
      filingDate = company_info.filingDate (info v)\<rparr>"

definition upsert :: "company_data \<Rightarrow> db \<Rightarrow> nat \<times> db" where
  "upsert v d =
     (case find (\<lambda>r. company_row.ein r = company_info.ein (info v)) (companies d) of
        Some r \<Rightarrow>
          (id' r,
           d\<lparr>companies :=
               map (\<lambda>r'. if company_row.ein r' = company_info.ein (info v)
                          then toRow (id' r') v else r') (companies d)\<rparr>)
      | None \<Rightarrow>
          (nextId d,
           d\<lparr>companies := companies d @ [toRow (nextId d) v], nextId := Suc (nextId d)\<rparr>))"

text \<open>
  Modelled from the spec: \<open>Model.destroy({ where: { companyId } })\<close> deletes the child rows
  scoped to that parent's identifier, and \<open>Model.bulkCreate\<close> inserts a row for each of
  the given objects, in their order: the columns of the model are taken from the object
  (the model of the personnel table has no \<open>taxYear\<close> column, so that key is dropped
  there), a decimal is kept in hundredths and an integer as the nearest integer.
\<close>

definition storedPersonnel :: "personnel_values \<Rightarrow> personnel_row" where
  "storedPersonnel v =
     \<lparr>personnel_row.companyId = personnel_values.companyId v,
      fullName = personnel_values.fullName v,
      title = personnel_values.title v,
      compensation = hundredths (personnel_values.compensation v)\<rparr>"

definition storedExpenseCategory :: "expense_values \<Rightarrow> expense_row" where
  "storedExpenseCategory v =
     \<lparr>expense_row.companyId = expense_values.companyId v,
      category = expense_values.category v,
      amount = hundredths (expense_values.amount v),
      taxYear = nearest (expense_values.taxYear v)\<rparr>"

definition destroyPersonnel :: "nat \<Rightarrow> db \<Rightarrow> db" where
  "destroyPersonnel c d =
     d\<lparr>db.personnel := filter (\<lambda>p. personnel_row.companyId p \<noteq> c) (db.personnel d)\<rparr>"

definition destroyExpenseCategory :: "nat \<Rightarrow> db \<Rightarrow> db" where
  "destroyExpenseCategory c d =
     d\<lparr>expense_categories :=
         filter (\<lambda>e. expense_row.companyId e \<noteq> c) (expense_categories d)\<rparr>"

definition bulkCreatePersonnel :: "personnel_values list \<Rightarrow> db \<Rightarrow> db" where
  "bulkCreatePersonnel vs d = d\<lparr>db.personnel := db.personnel d @ map storedPersonnel vs\<rparr>"

definition bulkCreateExpenseCategory :: "expense_values list \<Rightarrow> db \<Rightarrow> db" where
  "bulkCreateExpenseCategory vs d =
     d\<lparr>expense_categories := expense_categories d @ map storedExpenseCategory vs\<rparr>"

section \<open>datasetService.js: the ingestion run\<close>

text \<open>
  What a run meets outside the program is given by its outcome:
  \<^item> \<open>download url\<close>: the exception of \<open>downloadZipFile\<close> (raised before the archive file is
    written), or none;
  \<^item> \<open>extraction\<close>: what \<open>extractZipFile\<close> does after the archive is there;
  \<^item> \<open>xmlFiles\<close>: the exception of \<open>getXmlFiles\<close>, or the files it lists, each with its
    base name and with the outcome of reading it and of the XML library on its content;
  \<^item> \<open>upsertError v\<close>: the error with which the persistence backend refuses the upsert of
    \<open>v\<close> (a constraint violation), or none;
  \<^item> \<open>currentYear\<close>: \<open>new Date().getFullYear()\<close>.
\<close>

datatype extract_outcome =
    MkdirError error
  | StreamError error
  | Extracted

record xml_file =
  baseName :: string
  fileContent :: "error + (error + jsval)"

record env =
  download :: "string \<Rightarrow> error option"
  extraction :: extract_outcome
  xmlFiles :: "error + xml_file list"
  upsertError :: "company_data \<Rightarrow> error option"
  currentYear :: int

text \<open>
  The working storage and the database. \<open>archiveFile\<close> and \<open>extractDir\<close> say whether the
  downloaded archive and the directory it is expanded into exist.
\<close>

record world =
  archiveFile :: bool
  extractDir :: bool
  database :: db

text \<open>
  \<open>stats.errors\<close>. The object literal of \<open>processDataset\<close> has the key \<open>errors\<close> twice
  (\<open>errors: 0\<close>, then \<open>errors: []\<close>); the later one stands, so the field starts as the empty
  array. \<open>stats.errors++\<close> replaces it by a number: \<open>ToNumber([])\<close> is 0, and an array of
  error messages converts to \<open>NaN\<close>. \<open>stats.errors.push(m)\<close> appends to an array and throws
  a TypeError on a number.
\<close>

datatype errors_val = ErrArr "string list" | ErrNum rat | ErrNaN

fun increment :: "errors_val \<Rightarrow> errors_val" where
  "increment (ErrArr []) = ErrNum 1"
| "increment (ErrArr (m # ms)) = ErrNaN"
| "increment (ErrNum n) = ErrNum (n + 1)"
| "increment ErrNaN = ErrNaN"

fun push :: "errors_val \<Rightarrow> string \<Rightarrow> error + errors_val" where
  "push (ErrArr ms) m = Inr (ErrArr (ms @ [m]))"
| "push e m = Inl (TypeError ''stats.errors.push is not a function'')"

record stats =
  totalFiles :: nat
  processed :: nat
  saved :: nat
  errors :: errors_val

text \<open>
  The object handed to \<open>Company.upsert\<close>, and the arrays \<open>personnelData\<close> and
  \<open>expenseData\<close> handed to \<open>bulkCreate\<close>.
\<close>

definition upsertValues :: "env \<Rightarrow> company_data \<Rightarrow> company_data" where
  "upsertValues e companyData =
     companyData\<lparr>info := (info companyData)
       \<lparr>company_info.taxYear :=
          numOr (company_info.taxYear (info companyData)) (of_int (currentYear e))\<rparr>\<rparr>"

definition personnelData :: "nat \<Rightarrow> parsed_data \<Rightarrow> personnel_values list" where
  "personnelData cId parsedData =
     map (\<lambda>p. \<lparr>personnel_values.companyId = cId,
                personnel_values.fullName = personnel_data.fullName p,
                personnel_values.title = personnel_data.title p,
                personnel_values.compensation = personnel_data.compensation p,
                personnel_values.taxYear = company_info.taxYear (info (company parsedData))\<rparr>)
         (parsed_data.personnel parsedData)"

definition expenseData :: "nat \<Rightarrow> parsed_data \<Rightarrow> expense_values list" where
  "expenseData cId parsedData =
     map (\<lambda>x. \<lparr>expense_values.companyId = cId,
                expense_values.category = expense_data.category x,
                expense_values.amount = expense_data.amount x,
                expense_values.taxYear = company_info.taxYear (info (company parsedData))\<rparr>)
         (expenses parsedData)"

definition saveToDatabase :: "env \<Rightarrow> parsed_data \<Rightarrow> db \<Rightarrow> error + db" where
  "saveToDatabase e parsedData d =
     (if \<not> truthy (company_info.ein (info (company parsedData)))
      then Inl (Error ''Company EIN is required'')
      else
        (case upsertError e (upsertValues e (company parsedData)) of
           Some err \<Rightarrow> Inl err
         | None \<Rightarrow>
             (case upsert (upsertValues e (company parsedData)) d of
                (cId, d1) \<Rightarrow>
                  let d2 = destroyPersonnel cId d1;
                      d3 = destroyExpenseCategory cId d2;
                      d4 = (if parsed_data.personnel parsedData \<noteq> []
                            then bulkCreatePersonnel (personnelData cId parsedData) d3 else d3);
                      d5 = (if expenses parsedData \<noteq> []
                            then bulkCreateExpenseCategory (expenseData cId parsedData) d4 else d4)
                  in Inr d5)))"

text \<open>
  \<open>processXmlFile\<close> changes \<open>stats\<close> in place, so the counters it has touched stay touched
  when it throws: the result is the exception (if any) with the statistics and the
  database as it leaves them.
\<close>

definition processXmlFile :: "env \<Rightarrow> xml_file \<Rightarrow> stats \<times> db \<Rightarrow> error option \<times> stats \<times> db" where
  "processXmlFile e xmlFile sd =
     (case sd of (st, d) \<Rightarrow>
        let st1 = st\<lparr>processed := processed st + 1\<rparr> in
        (case fileContent xmlFile of
           Inl err \<Rightarrow> (Some err, st1, d)
         | Inr xmlContent \<Rightarrow>
             (case parse (currentYear e) xmlContent of
                None \<Rightarrow> (None, st1, d)
              | Some parsedData \<Rightarrow>
                  (case saveToDatabase e parsedData d of
                     Inl err \<Rightarrow> (Some err, st1, d)
                   | Inr d' \<Rightarrow> (None, st1\<lparr>saved := saved st1 + 1\<rparr>, d')))))"

text \<open>
  \<open>maxCompanies\<close> is \<open>null\<close> or a number of companies; \<open>if (maxCompanies)\<close> holds for a
  number other than 0.
\<close>

fun limited :: "nat option \<Rightarrow> bool" where
  "limited None = False"
| "limited (Some n) = (n \<noteq> 0)"

text \<open>
  The loop \<open>for (const xmlFile of filesToProcess)\<close> with its \<open>try\<close>/\<open>catch\<close>. An exception
  raised inside the \<open>catch\<close> block leaves the loop; it is the first component of the result.
\<close>

fun processFiles :: "env \<Rightarrow> nat option \<Rightarrow> xml_file list \<Rightarrow> stats \<times> db \<Rightarrow> error option \<times> stats \<times> db" where
  "processFiles e maxCompanies [] sd = (None, sd)"
| "processFiles e maxCompanies (xmlFile # rest) sd =
     (case processXmlFile e xmlFile sd of
        (None, st, d) \<Rightarrow>
          if limited maxCompanies \<and> saved st \<ge> the maxCompanies then (None, st, d)
          else processFiles e maxCompanies rest (st, d)
      | (Some err, st, d) \<Rightarrow>
          let st1 = st\<lparr>errors := increment (errors st)\<rparr>;
              errorMessage = ''Error processing file '' @ baseName xmlFile @ '': '' @ message err
          in (case push (errors st1) errorMessage of
                Inl thrown \<Rightarrow> (Some thrown, st1, d)
              | Inr es \<Rightarrow> processFiles e maxCompanies rest (st1\<lparr>errors := es\<rparr>, d)))"

text \<open>
  \<open>processDataset\<close>: the statistics it returns or the exception it throws, and the world it
  leaves. The \<open>catch\<close> of the outer \<open>try\<close> unlinks the archive when \<open>tempPath\<close> has been set.
\<close>

definition processDataset :: "env \<Rightarrow> string \<Rightarrow> nat option \<Rightarrow> world \<Rightarrow> (error + stats) \<times> world" where
  "processDataset e irsZipUrl maxCompanies w =
     (let st0 = \<lparr>totalFiles = 0, processed = 0, saved = 0, errors = ErrArr []\<rparr> in
      case download e irsZipUrl of
        Some err \<Rightarrow> (Inl err, w)
      | None \<Rightarrow>
          let w1 = w\<lparr>archiveFile := True\<rparr> in
          (case extraction e of
             MkdirError err \<Rightarrow> (Inl err, w1\<lparr>archiveFile := False\<rparr>)
           | StreamError err \<Rightarrow> (Inl err, w1\<lparr>extractDir := True, archiveFile := False\<rparr>)
           | Extracted \<Rightarrow>
               let w2 = w1\<lparr>extractDir := True\<rparr> in
               (case xmlFiles e of
                  Inl err \<Rightarrow> (Inl err, w2\<lparr>archiveFile := False\<rparr>)
                | Inr files \<Rightarrow>
                    let st1 = st0\<lparr>totalFiles := length files\<rparr>;
                        filesToProcess = (if limited maxCompanies
                                          then take (the maxCompanies) files else files)
                    in (case processFiles e maxCompanies filesToProcess (st1, database w2) of
                          (Some err, st, d) \<Rightarrow>
                            (Inl err, w2\<lparr>archiveFile := False, database := d\<rparr>)
                        | (None, st, d) \<Rightarrow>
                            (Inr st, w2\<lparr>extractDir := False, archiveFile := False,
                                        database := d\<rparr>)))))"

section \<open>dataHelper.js: year-over-year changes\<close>

text \<open>
  \<open>previous === 0\<close> holds for the number 0 only, never for a string; \<open>current > 0\<close>,
  \<open>current - previous\<close> and the division take the numbers of their operands.
\<close>

definition calculatePercentageChange :: "colval \<Rightarrow> colval \<Rightarrow> jsnumber option" where
  "calculatePercentageChange current previous =
     (if previous = CNull then None
      else if previous = CNumber 0
      then (if toNumber current > 0 then Some (Finite 100) else Some (Finite 0))
      else Some (numTimes (numDivide (toNumber current - toNumber previous) (toNumber previous)) 100))"

definition calculateAbsoluteChange :: "colval \<Rightarrow> colval \<Rightarrow> jsnumber option" where
  "calculateAbsoluteChange current previous =
     (if previous = CNull then None
      else Some (Finite (toNumber current - toNumber previous)))"

section \<open>companiesController.js: the read endpoints\<close>

record delta =
  absolute :: "jsnumber option"
  percentage :: "jsnumber option"

record deltas =
  revenue :: delta
  expenses :: delta
  assets :: delta
  employees :: delta

text \<open>
  \<open>res.json\<close>: JSON has no \<open>NaN\<close> and no infinity, and \<open>JSON.stringify\<close> writes them as
  \<open>null\<close>. This is the number that the client reads.
\<close>

fun json :: "jsnumber option \<Rightarrow> rat option" where
  "json (Some (Finite x)) = Some x"
| "json v = None"

text \<open>
  \<open>hasPreviousData\<close>, as both endpoints compute it. A row read from the table has every
  selected column, so a column is never \<open>undefined\<close>.
\<close>

definition hasPreviousData :: "company_row \<Rightarrow> bool" where
  "hasPreviousData data =
     (company_row.previousRevenue data \<noteq> CNull \<and>
      company_row.previousExpenses data \<noteq> CNull \<and>
      company_row.previousAssets data \<noteq> CNull \<and>
      company_row.previousEmployeeCount data \<noteq> CNull)"

definition deltaPair :: "bool \<Rightarrow> colval \<Rightarrow> colval \<Rightarrow> delta" where
  "deltaPair has current previous =
     \<lparr>absolute = (if has then calculateAbsoluteChange current previous else None),
      percentage = (if has then calculatePercentageChange current previous else None)\<rparr>"

text \<open>The object \<open>deltas\<close> of the listing (the callback of \<open>rows.map\<close>).\<close>

definition companyDeltas :: "company_row \<Rightarrow> deltas" where
  "companyDeltas data =
     (let has = hasPreviousData data in
      \<lparr>revenue = deltaPair has (company_row.currentRevenue data) (company_row.previousRevenue data),
       expenses = deltaPair has (company_row.currentExpenses data) (company_row.previousExpenses data),
       assets = deltaPair has (company_row.currentAssets data) (company_row.previousAssets data),
       employees = deltaPair has (company_row.currentEmployeeCount data)
                     (company_row.previousEmployeeCount data)\<rparr>)"

text \<open>The object \<open>deltas\<close> of the detail endpoint.\<close>

definition detailDeltas :: "company_row \<Rightarrow> deltas" where
  "detailDeltas data =
     (let has = hasPreviousData data in
      \<lparr>revenue = deltaPair has (company_row.currentRevenue data) (company_row.previousRevenue data),
       expenses = deltaPair has (company_row.currentExpenses data) (company_row.previousExpenses data),
       assets = deltaPair has (company_row.currentAssets data) (company_row.previousAssets data),
       employees = deltaPair has (company_row.currentEmployeeCount data)
                     (company_row.previousEmployeeCount data)\<rparr>)"

record classification =
  type' :: string
  description :: string
  color :: string

text \<open>
  \<open>data.currentRevenue > data.currentExpenses\<close> compares two column values (two strings,
  for a row of the table); the two percentages are numbers or \<open>null\<close>.
\<close>

definition calculateClassification :: "company_row \<Rightarrow> deltas \<Rightarrow> classification" where
  "calculateClassification data ds =
     (let isProfitable = greater (company_row.currentRevenue data) (company_row.currentExpenses data);
          isScaling = numGreater (num (percentage (deltas.expenses ds))) (num (percentage (revenue ds)))
      in if isProfitable \<and> \<not> isScaling
         then \<lparr>type' = ''Profitable'',
               description = ''Revenue exceeds expenses with controlled growth'',
               color = ''green''\<rparr>
         else if isScaling
         then \<lparr>type' = ''Scaling'',
               description = ''Growing expenses faster than revenue to fuel expansion'',
               color = ''blue''\<rparr>
         else \<lparr>type' = ''Restructuring'',
               description = ''Operating at a loss, may need strategic adjustments'',
               color = ''orange''\<rparr>)"

text \<open>
  The string \<open>x.toFixed(f)\<close> is kept as the number and the count of digits. The
  descriptions of the staffing badge are the three template strings.
\<close>

datatype fixed = ToFixed jsnumber nat

datatype staffing_description =
    StaffIncrease fixed
  | NoChange
  | StaffReduction fixed

record staffing_growth =
  badge :: string
  level :: string
  color :: string
  description :: staffing_description

definition calculateStaffingGrowth :: "delta \<Rightarrow> staffing_growth" where
  "calculateStaffingGrowth employeeDelta =
     (let growthRate = percentage employeeDelta in
      if numGreaterEq (num growthRate) (Finite 20)
      then \<lparr>badge = ''Rapid Growth'', level = ''high'', color = ''green'',
            description = StaffIncrease (ToFixed (num growthRate) 1)\<rparr>
      else if numGreaterEq (num growthRate) (Finite 10)
      then \<lparr>badge = ''Steady Growth'', level = ''medium'', color = ''blue'',
            description = StaffIncrease (ToFixed (num growthRate) 1)\<rparr>
      else if numGreater (num growthRate) (Finite 0)
      then \<lparr>badge = ''Modest Growth'', level = ''low'', color = ''gray'',
            description = StaffIncrease (ToFixed (num growthRate) 1)\<rparr>
      else if growthRate = Some (Finite 0)
      then \<lparr>badge = ''Stable'', level = ''neutral'', color = ''gray'',
            description = NoChange\<rparr>
      else \<lparr>badge = ''Downsizing'', level = ''negative'', color = ''red'',
            description = StaffReduction (ToFixed (numAbs (num growthRate)) 1)\<rparr>)"

text \<open>
  \<open>profitMargin\<close> is a \<open>toFixed\<close> string or the number 0. \<open>assetGrowthRate\<close> calls
  \<open>toFixed\<close> on \<open>deltas.assets.percentage\<close>, which throws a TypeError on \<open>null\<close>.
\<close>

datatype margin = MarginFixed fixed | MarginZero

record financial_health =
  netIncome :: rat
  profitMargin :: margin
  assetGrowthRate :: fixed

record analytics =
  classification :: classification
  staffingGrowth :: staffing_growth
  financialHealth :: financial_health

definition calculateAnalytics :: "company_row \<Rightarrow> deltas \<Rightarrow> error + analytics" where
  "calculateAnalytics data ds =
     (let cls = calculateClassification data ds;
          sg = calculateStaffingGrowth (employees ds);
          ni = toNumber (company_row.currentRevenue data)
                 - toNumber (company_row.currentExpenses data);
          pm = (if toNumber (company_row.currentRevenue data) > 0
                then MarginFixed (ToFixed
                       (numTimes (numDivide (toNumber (company_row.currentRevenue data)
                                         - toNumber (company_row.currentExpenses data))
                                      (toNumber (company_row.currentRevenue data))) 100) 2)
                else MarginZero)
      in (case percentage (assets ds) of
            None \<Rightarrow> Inl (TypeError ''Cannot read properties of null (reading 'toFixed')'')
          | Some p \<Rightarrow>
              Inr \<lparr>classification = cls,
                   staffingGrowth = sg,
                   financialHealth = \<lparr>netIncome = ni, profitMargin = pm,
                                      assetGrowthRate = ToFixed p 2\<rparr>\<rparr>))"

text \<open>
  The query string. A parameter that is absent takes the default of the destructuring;
  one that is present is a string, an array of strings or an object.
\<close>

datatype qval = QStr string | QArr "string list" | QObj

fun qToString :: "qval \<Rightarrow> string" where
  "qToString (QStr s) = s"
| "qToString (QArr xs) = joinWith '','' xs"
| "qToString QObj = ''[object Object]''"

fun qTruthy :: "qval \<Rightarrow> bool" where
  "qTruthy (QStr s) = (s \<noteq> [])"
| "qTruthy v = True"

record query =
  search :: "qval option"
  sortBy :: "qval option"
  sortOrder :: "qval option"
  page :: "qval option"
  limit :: "qval option"

text \<open>
  \<open>parseInt\<close> without a radix: leading (ASCII) white space, a sign, \<open>0x\<close> or \<open>0X\<close> for
  radix 16, then the longest run of digits of the radix; \<open>None\<close> is \<open>NaN\<close>.
\<close>

definition isHexDigit :: "char \<Rightarrow> bool" where
  "isHexDigit c = (c \<in> set ''0123456789abcdefABCDEF'')"

definition hexVal :: "char \<Rightarrow> int" where
  "hexVal c = (if isDigit c then of_char c - 48
               else if c \<in> set ''abcdef'' then of_char c - 87
               else of_char c - 55)"

definition parseDigits :: "string \<Rightarrow> int option" where
  "parseDigits s =
     (case s of
        a # b # r \<Rightarrow>
          if a = CHR ''0'' \<and> (b = CHR ''x'' \<or> b = CHR ''X'')
          then (let ds = takeWhile isHexDigit r
                in if ds = [] then None
                   else Some (foldl (\<lambda>acc c. 16 * acc + hexVal c) 0 ds))
          else (let ds = takeWhile isDigit s
                in if ds = [] then None else Some (intOfDigits ds))
      | _ \<Rightarrow>
          (let ds = takeWhile isDigit s
           in if ds = [] then None else Some (intOfDigits ds)))"

definition parseInt :: "string \<Rightarrow> int option" where
  "parseInt str =
     (case dropWhile isSpace str of
        [] \<Rightarrow> None
      | c # cs \<Rightarrow>
          if c = CHR ''-'' then map_option uminus (parseDigits cs)
          else if c = CHR ''+'' then parseDigits cs
          else parseDigits (c # cs))"

definition toLowerCase :: "string \<Rightarrow> string" where
  "toLowerCase s =
     map (\<lambda>c. if 65 \<le> (of_char c :: nat) \<and> (of_char c :: nat) \<le> 90
               then char_of ((of_char c :: nat) + 32) else c) s"

text \<open>
  Modelled from the spec: the query engine behind \<open>Company.findAndCountAll\<close> and
  \<open>Company.findByPk\<close> is not part of the repository. The listing is keyed by search text,
  sort field, sort direction, page and page size: the rows that match the search, in the
  order asked for, from the offset on, at most \<open>limit\<close> of them, with the count of all
  matching rows. How the database matches a \<open>LIKE\<close> pattern and how it orders rows is
  given by \<open>like\<close> and \<open>orderBy\<close>; \<open>queryError\<close> is the exception of a failing query.
\<close>

record backend =
  like :: "string \<Rightarrow> jsval \<Rightarrow> bool"
  orderBy :: "string \<Rightarrow> string \<Rightarrow> company_row list \<Rightarrow> company_row list"
  queryError :: "error option"

datatype where_clause = WhereAll | WhereLike string

fun matches :: "backend \<Rightarrow> where_clause \<Rightarrow> company_row \<Rightarrow> bool" where
  "matches b WhereAll r = True"
| "matches b (WhereLike pat) r =
     (like b pat (company_row.name r) \<or> like b pat (company_row.ein r)
      \<or> like b pat (company_row.mission r))"

definition findAndCountAll ::
  "backend \<Rightarrow> db \<Rightarrow> where_clause \<Rightarrow> string \<Rightarrow> string \<Rightarrow> nat \<Rightarrow> nat \<Rightarrow> nat \<times> company_row list" where
  "findAndCountAll b d wh sortField sortDirection limitN offsetN =
     (let found = filter (matches b wh) (companies d)
      in (length found, take limitN (drop offsetN (orderBy b sortField sortDirection found))))"

definition findByPk :: "db \<Rightarrow> nat \<Rightarrow> company_row option" where
  "findByPk d i = find (\<lambda>r. id' r = i) (companies d)"

datatype db_call =
    FindAndCountAll where_clause string string nat nat
  | FindByPk nat

record company_with_deltas =
  data :: company_row
  deltas :: deltas

record pagination =
  total :: nat
  page :: int
  limit :: int
  totalPages :: int
  hasNextPage :: bool
  hasPrevPage :: bool

record company_detail =
  data :: company_row
  personnel :: "personnel_row list"
  expenseCategories :: "expense_row list"
  deltas :: deltas
  analytics :: analytics

datatype body =
    ErrorBody string "string option"
  | ListBody "company_with_deltas list" pagination
  | DetailBody company_detail

record response =
  status :: nat
  body :: body

definition allowedSortFields :: "string list" where
  "allowedSortFields =
     [''name'', ''ein'', ''currentRevenue'', ''currentExpenses'',
      ''currentAssets'', ''currentEmployeeCount'', ''taxYear'']"

text \<open>\<open>parseInt(page)\<close> and \<open>parseInt(limit)\<close>, with the defaults 1 and 25.\<close>

definition pageNum :: "query \<Rightarrow> int option" where
  "pageNum q = parseInt (case query.page q of None \<Rightarrow> ''1'' | Some v \<Rightarrow> qToString v)"

definition limitNum :: "query \<Rightarrow> int option" where
  "limitNum q = parseInt (case query.limit q of None \<Rightarrow> ''25'' | Some v \<Rightarrow> qToString v)"

text \<open>
  \<open>getAllCompanies\<close>: the response, and the database calls made on the way to it.
\<close>

definition getAllCompanies :: "backend \<Rightarrow> db \<Rightarrow> query \<Rightarrow> response \<times> db_call list" where
  "getAllCompanies b d q =
     (let search = (case query.search q of None \<Rightarrow> QStr [] | Some v \<Rightarrow> v);
          sortBy = (case query.sortBy q of None \<Rightarrow> QStr ''name'' | Some v \<Rightarrow> v);
          sortOrder = (case query.sortOrder q of None \<Rightarrow> QStr ''asc'' | Some v \<Rightarrow> v)
      in if pageNum q = None \<or> the (pageNum q) < 1
         then (\<lparr>status = 400, body = ErrorBody ''Invalid page number'' None\<rparr>, [])
         else if limitNum q = None \<or> the (limitNum q) < 1 \<or> the (limitNum q) > 100
         then (\<lparr>status = 400,
                body = ErrorBody ''Invalid limit. Must be between 1 and 100'' None\<rparr>, [])
         else
           let whereClause = (if qTruthy search
                              then WhereLike (''%'' @ qToString search @ ''%'')
                              else WhereAll);
               sortField = (case sortBy of
                              QStr f \<Rightarrow> if f \<in> set allowedSortFields then f else ''name''
                            | _ \<Rightarrow> ''name'')
           in (case sortOrder of
                 QStr so \<Rightarrow>
                   let sortDirection = (if toLowerCase so = ''desc'' then ''DESC'' else ''ASC'');
                       limitN = nat (the (limitNum q));
                       offsetN = nat ((the (pageNum q) - 1) * the (limitNum q));
                       call = FindAndCountAll whereClause sortField sortDirection limitN offsetN
                   in (case queryError b of
                         Some err \<Rightarrow>
                           (\<lparr>status = 500,
                             body = ErrorBody ''Failed to fetch companies'' (Some (message err))\<rparr>,
                            [call])
                       | None \<Rightarrow>
                           (case findAndCountAll b d whereClause sortField sortDirection limitN offsetN of
                              (count, rows) \<Rightarrow>
                                let companiesWithDeltas =
                                      map (\<lambda>r. \<lparr>company_with_deltas.data = r,
                                                 deltas = companyDeltas r\<rparr>) rows;
                                    tp = \<lceil>(of_nat count :: rat) / of_int (the (limitNum q))\<rceil>
                                in (\<lparr>status = 200,
                                     body = ListBody companiesWithDeltas
                                       \<lparr>total = count, page = the (pageNum q), limit = the (limitNum q),
                                        totalPages = tp,
                                        hasNextPage = (the (pageNum q) < tp),
                                        hasPrevPage = (the (pageNum q) > 1)\<rparr>\<rparr>,
                                    [call])))
               | _ \<Rightarrow>
                   (\<lparr>status = 500,
                     body = ErrorBody ''Failed to fetch companies''
                              (Some ''sortOrder.toLowerCase is not a function'')\<rparr>,
                    [])))"

text \<open>\<open>getCompanyById\<close>: the response, and the database calls made on the way to it.\<close>

definition getCompanyById :: "backend \<Rightarrow> db \<Rightarrow> nat \<Rightarrow> response \<times> db_call list" where
  "getCompanyById b d i =
     (case queryError b of
        Some err \<Rightarrow>
          (\<lparr>status = 500, body = ErrorBody ''Failed to fetch company'' (Some (message err))\<rparr>,
           [FindByPk i])
      | None \<Rightarrow>
          (case findByPk d i of
             None \<Rightarrow> (\<lparr>status = 404, body = ErrorBody ''Company not found'' None\<rparr>, [FindByPk i])
           | Some row \<Rightarrow>
               let ds = detailDeltas row in
               (case calculateAnalytics row ds of
                  Inl err \<Rightarrow>
                    (\<lparr>status = 500,
                      body = ErrorBody ''Failed to fetch company'' (Some (message err))\<rparr>,
                     [FindByPk i])
                | Inr an \<Rightarrow>
                    (\<lparr>status = 200,
                      body = DetailBody
                        \<lparr>company_detail.data = row,
                         personnel = filter (\<lambda>p. personnel_row.companyId p = i) (db.personnel d),
                         expenseCategories =
                           filter (\<lambda>x. expense_row.companyId x = i) (expense_categories d),
                         deltas = ds,
                         analytics = an\<rparr>\<rparr>,
                     [FindByPk i]))))"

text \<open>The records a response carries.\<close>

fun records :: "response \<Rightarrow> company_with_deltas list" where
  "records r = (case body r of ListBody xs p \<Rightarrow> xs | _ \<Rightarrow> [])"

section \<open>Vocabulary of the properties\<close>

text \<open>
  The page parameter parses to an integer of at least 1; the limit parameter parses to an
  integer between 1 and 100.
\<close>

definition validPage :: "query \<Rightarrow> bool" where
  "validPage q = (case pageNum q of None \<Rightarrow> False | Some n \<Rightarrow> 1 \<le> n)"

definition validLimit :: "query \<Rightarrow> bool" where
  "validLimit q = (case limitNum q of None \<Rightarrow> False | Some n \<Rightarrow> 1 \<le> n \<and> n \<le> 100)"

text \<open>
  A candidate document is mapped when it can be read and \<open>parse\<close> returns a record for it.
  It is quiet when \<open>processXmlFile\<close> raises no exception on it: it can be read, and either
  it is not mapped or the persistence backend accepts its record.
\<close>

definition mapped :: "env \<Rightarrow> xml_file \<Rightarrow> bool" where
  "mapped e f =
     (case fileContent f of
        Inl err \<Rightarrow> False
      | Inr xmlContent \<Rightarrow> parse (currentYear e) xmlContent \<noteq> None)"

definition quiet :: "env \<Rightarrow> xml_file \<Rightarrow> bool" where
  "quiet e f =
     (case fileContent f of
        Inl err \<Rightarrow> False
      | Inr xmlContent \<Rightarrow>
          (case parse (currentYear e) xmlContent of
             None \<Rightarrow> True
           | Some parsedData \<Rightarrow> upsertError e (upsertValues e (company parsedData)) = None))"

text \<open>A delta pair is computed when neither of its two components is \<open>null\<close>.\<close>

definition computed :: "delta \<Rightarrow> bool" where
  "computed p = (absolute p \<noteq> None \<and> percentage p \<noteq> None)"

definition nullPair :: delta where
  "nullPair = \<lparr>absolute = None, percentage = None\<rparr>"

definition allComputed :: "deltas \<Rightarrow> bool" where
  "allComputed ds = (computed (revenue ds) \<and> computed (deltas.expenses ds)
                     \<and> computed (assets ds) \<and> computed (employees ds))"

definition allNull :: "deltas \<Rightarrow> bool" where
  "allNull ds = (revenue ds = nullPair \<and> deltas.expenses ds = nullPair
                 \<and> assets ds = nullPair \<and> employees ds = nullPair)"

text \<open>
  The organization table respects the unique constraint on \<open>ein\<close> that the model of the
  table declares.
\<close>

definition uniqueEin :: "db \<Rightarrow> bool" where
  "uniqueEin d = distinct (map company_row.ein (companies d))"

text \<open>
  The form supplies no prior-year figure: none of the places where
  \<open>extractFinancialData\<close> looks for one holds a usable value.
\<close>

definition noPriorYearFigures :: "jsval \<Rightarrow> bool" where
  "noPriorYearFigures irs990 =
     (\<not> truthy (get irs990 ''PYTotalRevenueAmt'')
      \<and> \<not> truthy (get (get irs990 ''TotalRevenueGrp'') ''PriorYearAmt'')
      \<and> \<not> truthy (get irs990 ''PYTotalExpensesAmt'')
      \<and> \<not> truthy (get (get irs990 ''TotalExpensesGrp'') ''PriorYearAmt'')
      \<and> \<not> truthy (get irs990 ''TotalAssetsBOYAmt'')
      \<and> \<not> truthy (get (get irs990 ''TotalAssetsGrp'') ''BOYAmt'')
      \<and> \<not> truthy (get (get irs990 ''Form990TotalAssetsGrp'') ''BOYAmt'')
      \<and> \<not> truthy (get irs990 ''PYTotalEmployeeCnt''))"

section \<open>Example inputs\<close>

text \<open>
  A Form 990 return as the XML library hands it over: a filer with an EIN, current and
  prior revenue, one officer and one expense.
\<close>

definition exampleReturn :: jsval where
  "exampleReturn =
     JObj [(''Return'', JObj
       [(''ReturnHeader'', JObj
           [(''Filer'', JObj
               [(''EIN'', JNum 123456789),
                (''BusinessName'', JObj [(''BusinessNameLine1Txt'', JStr ''Helping Hands'')])]),
            (''TaxYr'', JNum 2022)]),
        (''ReturnData'', JObj
           [(''IRS990'', JObj
               [(''CYTotalRevenueAmt'', JNum 150000),
                (''PYTotalRevenueAmt'', JNum 120000),
                (''CYTotalExpensesAmt'', JNum 90000),
                (''PYTotalExpensesAmt'', JNum 100000),
                (''Form990PartVIISectionAGrp'', JArr
                   [JObj [(''PersonNm'', JStr ''Ann Lee''),
                          (''TitleTxt'', JStr ''CEO''),
                          (''ReportableCompFromOrgAmt'', JNum 1000),
                          (''OtherCompensationAmt'', JNum 50)]]),
                (''LegalFeesAmt'', JNum 500)])])])]"

text \<open>A first-time filing: no prior-year figure at all.\<close>

definition singleYearForm :: jsval where
  "singleYearForm = JObj [(''TotalRevenueAmt'', JNum 5000)]"

definition singleYearReturn :: jsval where
  "singleYearReturn =
     JObj [(''Return'', JObj
       [(''ReturnHeader'', JObj [(''Filer'', JObj [(''EIN'', JStr ''98-7654321'')])]),
        (''ReturnData'', JObj [(''IRS990EZ'', singleYearForm)])])]"

definition singleYearFile :: xml_file where
  "singleYearFile = \<lparr>baseName = ''first.xml'', fileContent = Inr (Inr singleYearReturn)\<rparr>"

text \<open>A form whose only officer entry carries a title and no name.\<close>

definition namelessOfficerForm :: jsval where
  "namelessOfficerForm =
     JObj [(''Form990PartVIISectionAGrp'', JObj [(''TitleTxt'', JStr ''Director'')])]"

definition goodFile :: "string \<Rightarrow> xml_file" where
  "goodFile n = \<lparr>baseName = n, fileContent = Inr (Inr exampleReturn)\<rparr>"

definition malformedFile :: "string \<Rightarrow> xml_file" where
  "malformedFile n = \<lparr>baseName = n, fileContent = Inr (Inl (Error ''Unclosed tag''))\<rparr>"

definition exampleEnv :: "xml_file list \<Rightarrow> env" where
  "exampleEnv files =
     \<lparr>download = (\<lambda>u. None), extraction = Extracted, xmlFiles = Inr files,
      upsertError = (\<lambda>v. None), currentYear = 2026\<rparr>"

definition unreadableFile :: "string \<Rightarrow> xml_file" where
  "unreadableFile n = \<lparr>baseName = n, fileContent = Inl (Error ''EACCES: permission denied'')\<rparr>"

definition emptyDb :: db where
  "emptyDb = \<lparr>companies = [], db.personnel = [], expense_categories = [], nextId = 1\<rparr>"

definition freshWorld :: world where
  "freshWorld = \<lparr>archiveFile = False, extractDir = False, database = emptyDb\<rparr>"

text \<open>The record mapped from the example return, and the table after saving it once and twice.\<close>

definition exampleParsed :: parsed_data where
  "exampleParsed = the (parse 2026 (Inr exampleReturn))"

definition savedOnce :: db where
  "savedOnce = projr (saveToDatabase (exampleEnv []) exampleParsed emptyDb)"

definition savedTwice :: db where
  "savedTwice = projr (saveToDatabase (exampleEnv []) exampleParsed savedOnce)"

text \<open>
  The record mapped from the first-time filing, the table and the row after saving it,
  and the world after a run over that one document.
\<close>

definition singleYearParsed :: parsed_data where
  "singleYearParsed = the (parse 2026 (Inr singleYearReturn))"

definition singleYearSaved :: db where
  "singleYearSaved = projr (saveToDatabase (exampleEnv []) singleYearParsed emptyDb)"

definition singleYearRow :: company_row where
  "singleYearRow = hd (companies singleYearSaved)"

definition singleYearWorld :: world where
  "singleYearWorld =
     snd (processDataset (exampleEnv [singleYearFile]) ''https://example.org/irs.zip''
            None freshWorld)"

text \<open>
  A stored organization whose prior-year revenue is NULL, in a table of its own, and a
  backend that matches every pattern and keeps the order of the table.
\<close>

definition rowWithoutPrior :: company_row where
  "rowWithoutPrior =
     \<lparr>company_row.id' = 1, ein = JStr ''123456789'', name = JStr ''Helping Hands'',
      website = JNull, mission = JNull,
      currentRevenue = CDecimal 15000000, currentExpenses = CDecimal 9000000,
      currentAssets = CDecimal 2000000, currentEmployeeCount = CNumber 50,
      previousRevenue = CNull, previousExpenses = CDecimal 10000000,
      previousAssets = CDecimal 1000000, previousEmployeeCount = CNumber 40,
      taxYear = CNumber 2022, filingDate = JNull\<rparr>"

definition rowWithPrior :: company_row where
  "rowWithPrior = rowWithoutPrior\<lparr>company_row.id' := 2, company_row.ein := JStr ''2'',
                                  company_row.previousRevenue := CDecimal 12000000\<rparr>"

definition exampleDb :: db where
  "exampleDb = \<lparr>companies = [rowWithoutPrior, rowWithPrior], db.personnel = [],
                expense_categories = [], nextId = 3\<rparr>"

definition plainBackend :: backend where
  "plainBackend = \<lparr>like = (\<lambda>p v. True), orderBy = (\<lambda>f dir rows. rows), queryError = None\<rparr>"

definition noQuery :: query where
  "noQuery = \<lparr>search = None, sortBy = None, sortOrder = None, page = None, limit = None\<rparr>"

section \<open>Year-over-year changes and the analytics\<close>

text \<open>
  C5. For every pair of numbers (current, previous): with previous = 0 the percentage change
  is 100 when current > 0 and 0 otherwise (a number, never infinite); with previous
  non-zero it is (current - previous) / previous * 100.
\<close>

theorem calculatePercentageChange_numbers:
  "calculatePercentageChange (CNumber current) (CNumber previous) =
     Some (Finite (if previous = 0 then (if current > 0 then 100 else 0)
                   else (current - previous) / previous * 100))"
  by (simp add: calculatePercentageChange_def numDivide_def)

theorem calculatePercentageChange_numbers_witness:
  "calculatePercentageChange (CNumber 50) (CNumber 0) = Some (Finite 100)
   \<and> calculatePercentageChange (CNumber 0) (CNumber 0) = Some (Finite 0)
   \<and> calculatePercentageChange (CNumber 150000) (CNumber 120000) = Some (Finite 25)"
  using calculatePercentageChange_numbers [of 50 0]
        calculatePercentageChange_numbers [of 0 0]
        calculatePercentageChange_numbers [of 150000 120000]
  by simp

text \<open>
  On two numbers \<open>calculateClassification\<close> follows the order of the numbers: with current
  revenue and expenses given as numbers and finite percentages \<open>r\<close> and \<open>x\<close>, the record is
  Profitable exactly when revenue exceeds expenses and \<open>x \<le> r\<close>, otherwise Scaling exactly
  when \<open>x > r\<close>, otherwise Restructuring.
\<close>

lemma calculateClassification_on_numbers:
  assumes "company_row.currentRevenue row = CNumber a"
      and "company_row.currentExpenses row = CNumber b"
      and "percentage (revenue ds) = Some (Finite r)"
      and "percentage (deltas.expenses ds) = Some (Finite x)"
  shows "type' (calculateClassification row ds) =
     (if a > b \<and> x \<le> r then ''Profitable''
      else if x > r then ''Scaling'' else ''Restructuring'')"
  using assms by (auto simp: calculateClassification_def Let_def)

text \<open>
  C7. A record with non-null revenue-growth and expense-growth percentages is to be
  Profitable exactly when current revenue exceeds current expenses and the expense
  growth does not exceed the revenue growth. A row of the table brings its revenue and
  its expenses as strings, and \<open>>\<close> compares two strings as text: the stored organization
  with revenue 150000.00 (120000.00 the year before) and expenses 90000.00 (100000.00 the
  year before) has revenue above expenses, a revenue growth of 25 and an expense growth
  of -10, and is classified Restructuring.
\<close>

theorem calculateClassification_compares_text:
  "company_row.currentRevenue rowWithPrior = CDecimal 15000000
   \<and> company_row.currentExpenses rowWithPrior = CDecimal 9000000
   \<and> decimalText 15000000 = ''150000.00''
   \<and> decimalText 9000000 = ''90000.00''
   \<and> toNumber (company_row.currentRevenue rowWithPrior)
       > toNumber (company_row.currentExpenses rowWithPrior)
   \<and> percentage (revenue (detailDeltas rowWithPrior)) = Some (Finite 25)
   \<and> percentage (deltas.expenses (detailDeltas rowWithPrior)) = Some (Finite (-10))
   \<and> type' (calculateClassification rowWithPrior (detailDeltas rowWithPrior)) = ''Restructuring''"
  by code_simp

subsection \<open>The four delta pairs are gated together\<close>

lemma computed_deltaPair: "prev \<noteq> CNull \<Longrightarrow> computed (deltaPair True cur prev)"
  by (simp add: computed_def deltaPair_def calculateAbsoluteChange_def
        calculatePercentageChange_def)

lemma deltaPair_without: "deltaPair False cur prev = nullPair"
  by (simp add: deltaPair_def nullPair_def)

lemma companyDeltas_without_prior: "\<not> hasPreviousData row \<Longrightarrow> allNull (companyDeltas row)"
  by (simp add: allNull_def companyDeltas_def Let_def deltaPair_without)

lemma detailDeltas_without_prior: "\<not> hasPreviousData row \<Longrightarrow> allNull (detailDeltas row)"
  by (simp add: allNull_def detailDeltas_def Let_def deltaPair_without)

lemma hasPreviousData_allComputed:
  assumes "hasPreviousData row"
  shows "allComputed (companyDeltas row)" and "allComputed (detailDeltas row)"
proof -
  have p: "company_row.previousRevenue row \<noteq> CNull"
      "company_row.previousExpenses row \<noteq> CNull" "company_row.previousAssets row \<noteq> CNull"
      "company_row.previousEmployeeCount row \<noteq> CNull"
    using assms by (auto simp: hasPreviousData_def)
  show "allComputed (companyDeltas row)"
    using assms p by (simp add: allComputed_def companyDeltas_def Let_def computed_deltaPair)
  show "allComputed (detailDeltas row)"
    using assms p by (simp add: allComputed_def detailDeltas_def Let_def computed_deltaPair)
qed

text \<open>With all four previous-year fields present the detail endpoint answers 200.\<close>

lemma getCompanyById_with_prior:
  assumes "queryError b = None" and "findByPk d i = Some row" and "hasPreviousData row"
  shows "status (fst (getCompanyById b d i)) = 200"
proof -
  have "computed (assets (detailDeltas row))"
    using hasPreviousData_allComputed(2) [OF assms(3)] by (simp add: allComputed_def)
  then obtain p where p: "percentage (assets (detailDeltas row)) = Some p"
    by (auto simp: computed_def)
  show ?thesis
    using assms(1,2) p by (simp add: getCompanyById_def calculateAnalytics_def Let_def)
qed

text \<open>
  C2. A stored organization with one previous-year field null: both read operations are
  to return all four delta pairs as null/null. The listing does. The detail operation
  computes the four null pairs and then fails on \<open>deltas.assets.percentage.toFixed(2)\<close>:
  for the row whose prior-year revenue is NULL it answers 500 and returns no pair.
\<close>

theorem getCompanyById_null_prior_year_responds_500:
  "allNull (detailDeltas rowWithoutPrior)
   \<and> getCompanyById plainBackend exampleDb 1 =
       (\<lparr>status = 500,
         body = ErrorBody ''Failed to fetch company''
                  (Some ''Cannot read properties of null (reading 'toFixed')'')\<rparr>,
        [FindByPk 1])"
  by code_simp

text \<open>
  C3. For a stored organization without prior-year data the analytics block is to come
  back with a null \<open>assetGrowthRate\<close>, and the null employee percentage is to stay out of
  the staffing ladder. In the code the null percentage goes through the ladder and
  falls to its last branch, and the analytics block raises a TypeError.
\<close>

theorem analytics_null_prior_year_throws:
  "percentage (employees (detailDeltas rowWithoutPrior)) = None
   \<and> badge (calculateStaffingGrowth (employees (detailDeltas rowWithoutPrior))) = ''Downsizing''
   \<and> calculateAnalytics rowWithoutPrior (detailDeltas rowWithoutPrior) =
       Inl (TypeError ''Cannot read properties of null (reading 'toFixed')'')"
  by code_simp

section \<open>The paginated listing\<close>

lemma validPage_iff: "validPage q \<longleftrightarrow> \<not> (pageNum q = None \<or> the (pageNum q) < 1)"
  by (cases "pageNum q") (auto simp: validPage_def)

lemma validLimit_iff:
  "validLimit q \<longleftrightarrow> \<not> (limitNum q = None \<or> the (limitNum q) < 1 \<or> the (limitNum q) > 100)"
  by (cases "limitNum q") (auto simp: validLimit_def)

lemma getAllCompanies_invalid_page:
  "\<not> validPage q \<Longrightarrow>
   getAllCompanies b d q = (\<lparr>status = 400, body = ErrorBody ''Invalid page number'' None\<rparr>, [])"
  unfolding validPage_iff getAllCompanies_def Let_def by (simp only: if_True simp_thms)

lemma getAllCompanies_invalid_limit:
  "validPage q \<Longrightarrow> \<not> validLimit q \<Longrightarrow>
   getAllCompanies b d q =
     (\<lparr>status = 400, body = ErrorBody ''Invalid limit. Must be between 1 and 100'' None\<rparr>, [])"
  unfolding validPage_iff validLimit_iff getAllCompanies_def Let_def
  by (simp only: if_True if_False simp_thms)

lemma records_getAllCompanies_valid:
  assumes "validPage q" "validLimit q"
  shows "length (records (fst (getAllCompanies b d q))) \<le> nat (the (limitNum q))"
proof -
  let ?so = "case query.sortOrder q of None \<Rightarrow> QStr ''asc'' | Some v \<Rightarrow> v"
  have c: "\<not> (pageNum q = None \<or> the (pageNum q) < 1)"
          "\<not> (limitNum q = None \<or> the (limitNum q) < 1 \<or> the (limitNum q) > 100)"
    using assms unfolding validPage_iff validLimit_iff by blast+
  show ?thesis
  proof (cases ?so)
    case (QStr so)
    show ?thesis
    proof (cases "queryError b")
      case None
      show ?thesis
        unfolding getAllCompanies_def Let_def
        using c QStr None by (simp add: findAndCountAll_def Let_def)
    next
      case (Some err)
      show ?thesis
        unfolding getAllCompanies_def Let_def
        using c QStr Some by simp
    qed
  next
    case (QArr xs)
    show ?thesis unfolding getAllCompanies_def Let_def using c QArr by simp
  next
    case QObj
    show ?thesis unfolding getAllCompanies_def Let_def using c QObj by simp
  qed
qed

text \<open>The listing gives a row without prior-year data four null pairs.\<close>

lemma getAllCompanies_deltas:
  assumes "x \<in> set (records (fst (getAllCompanies b d q)))"
  shows "company_with_deltas.deltas x = companyDeltas (company_with_deltas.data x)"
proof (cases "validPage q \<and> validLimit q")
  case False
  then have "records (fst (getAllCompanies b d q)) = []"
    using getAllCompanies_invalid_page [of q b d] getAllCompanies_invalid_limit [of q b d]
    by (cases "validPage q") auto
  then show ?thesis using assms by simp
next
  case True
  then have c: "\<not> (pageNum q = None \<or> the (pageNum q) < 1)"
          "\<not> (limitNum q = None \<or> the (limitNum q) < 1 \<or> the (limitNum q) > 100)"
    unfolding validPage_iff validLimit_iff by blast+
  show ?thesis
  proof (cases "case query.sortOrder q of None \<Rightarrow> QStr ''asc'' | Some v \<Rightarrow> v")
    case (QStr so)
    show ?thesis
    proof (cases "queryError b")
      case None
      show ?thesis
        using assms unfolding getAllCompanies_def Let_def
        using c QStr None by (auto simp: findAndCountAll_def Let_def)
    next
      case (Some err)
      show ?thesis
        using assms unfolding getAllCompanies_def Let_def
        using c QStr Some by simp
    qed
  next
    case (QArr xs)
    show ?thesis using assms unfolding getAllCompanies_def Let_def using c QArr by simp
  next
    case QObj
    show ?thesis using assms unfolding getAllCompanies_def Let_def using c QObj by simp
  qed
qed

text \<open>
  C10. For every listing request: if the page parameter does not parse to an integer of
  at least 1, or the limit parameter does not parse to an integer between 1 and 100, the
  answer is HTTP 400 with an error and no database call is made; otherwise the response
  carries at most limit records.
\<close>

theorem getAllCompanies_pagination:
  "(\<not> validPage q \<or> \<not> validLimit q \<longrightarrow>
      status (fst (getAllCompanies b d q)) = 400
      \<and> (\<exists>m. body (fst (getAllCompanies b d q)) = ErrorBody m None)
      \<and> snd (getAllCompanies b d q) = [])
   \<and> (validPage q \<and> validLimit q \<longrightarrow>
      int (length (records (fst (getAllCompanies b d q)))) \<le> the (limitNum q))"
proof (intro conjI impI)
  assume bad: "\<not> validPage q \<or> \<not> validLimit q"
  then have "getAllCompanies b d q
               = (\<lparr>status = 400, body = ErrorBody ''Invalid page number'' None\<rparr>, [])
             \<or> getAllCompanies b d q
               = (\<lparr>status = 400,
                   body = ErrorBody ''Invalid limit. Must be between 1 and 100'' None\<rparr>, [])"
    using getAllCompanies_invalid_page [of q b d] getAllCompanies_invalid_limit [of q b d]
    by (cases "validPage q") auto
  then show "status (fst (getAllCompanies b d q)) = 400"
    and "\<exists>m. body (fst (getAllCompanies b d q)) = ErrorBody m None"
    and "snd (getAllCompanies b d q) = []"
    by auto
next
  assume ok: "validPage q \<and> validLimit q"
  then have "length (records (fst (getAllCompanies b d q))) \<le> nat (the (limitNum q))"
    using records_getAllCompanies_valid by blast
  moreover have "the (limitNum q) \<ge> 1"
    using ok unfolding validLimit_iff by auto
  ultimately show "int (length (records (fst (getAllCompanies b d q)))) \<le> the (limitNum q)"
    by linarith
qed

theorem getAllCompanies_pagination_witness:
  "\<not> validPage (noQuery\<lparr>query.page := Some (QStr ''0'')\<rparr>)
   \<and> status (fst (getAllCompanies plainBackend exampleDb (noQuery\<lparr>query.page := Some (QStr ''0'')\<rparr>))) = 400
   \<and> snd (getAllCompanies plainBackend exampleDb (noQuery\<lparr>query.page := Some (QStr ''0'')\<rparr>)) = []
   \<and> validPage (noQuery\<lparr>query.limit := Some (QStr ''1'')\<rparr>)
   \<and> validLimit (noQuery\<lparr>query.limit := Some (QStr ''1'')\<rparr>)
   \<and> int (length (records (fst (getAllCompanies plainBackend exampleDb
                                  (noQuery\<lparr>query.limit := Some (QStr ''1'')\<rparr>))))) \<le> 1"
proof -
  let ?bad = "noQuery\<lparr>query.page := Some (QStr ''0'')\<rparr>"
  let ?ok = "noQuery\<lparr>query.limit := Some (QStr ''1'')\<rparr>"
  have b: "\<not> validPage ?bad" by code_simp
  have p: "validPage ?ok" by code_simp
  have l: "validLimit ?ok" by code_simp
  have n: "the (limitNum ?ok) = 1" by code_simp
  show ?thesis
    using getAllCompanies_pagination [of ?bad plainBackend exampleDb]
          getAllCompanies_pagination [of ?ok plainBackend exampleDb] b p l n
    by simp
qed

section \<open>The mapper\<close>

text \<open>
  C8. An entry of the officers collection is to yield a personnel record if and only if
  a full name resolves; an entry without one is to be dropped. For an entry with a title
  and no name field the template literal renders the two missing parts as
  \<open>null null\<close>, which is a non-empty string: the entry is kept, under that name.
\<close>

theorem extractPersonnel_keeps_nameless_entry:
  "extractPersonnel namelessOfficerForm =
     Inr [\<lparr>personnel_data.fullName = JStr ''null null'', title = JStr ''Director'',
           compensation = 0\<rparr>]"
  by code_simp

section \<open>Persistence\<close>

lemma ein_toRow [simp]: "company_row.ein (toRow i v) = company_info.ein (info v)"
  by (simp add: toRow_def)

lemma hasPreviousData_toRow [simp]: "hasPreviousData (toRow i v)"
  by (simp add: toRow_def hasPreviousData_def)

lemma ein_upsertValues [simp]:
  "company_info.ein (info (upsertValues e cd)) = company_info.ein (info cd)"
  by (simp add: upsertValues_def)

lemma find_None_filter: "find P xs = None \<Longrightarrow> filter P xs = []"
  by (induction xs) (auto split: if_splits)

text \<open>
  Replacing, in a list with distinct keys, the element that has a given key leaves
  exactly one element with that key, and the keys as they were.
\<close>

lemma filter_key_map_replace:
  assumes "distinct (map k xs)" and "r \<in> set xs" and "k r = key"
      and "\<And>x. k (g x) = key"
  shows "filter (\<lambda>x. k x = key) (map (\<lambda>x. if k x = key then g x else x) xs) = [g r]"
  using assms(1,2,3)
proof (induction xs)
  case Nil
  then show ?case by simp
next
  case (Cons a xs)
  show ?case
  proof (cases "a = r")
    case True
    have "key \<notin> k ` set xs" using Cons.prems True by auto
    then have "\<forall>x\<in>set xs. k x \<noteq> key" by blast
    then have "filter (\<lambda>x. k x = key) (map (\<lambda>x. if k x = key then g x else x) xs) = []"
      by (induction xs) auto
    then show ?thesis using True Cons.prems assms(4) by simp
  next
    case False
    then have rin: "r \<in> set xs" using Cons.prems by simp
    then have "k a \<noteq> key" using Cons.prems by force
    moreover have "filter (\<lambda>x. k x = key) (map (\<lambda>x. if k x = key then g x else x) xs) = [g r]"
      using Cons.IH rin Cons.prems by simp
    ultimately show ?thesis by simp
  qed
qed

lemma map_key_map_replace:
  assumes "\<And>x. k (g x) = key"
  shows "map k (map (\<lambda>x. if k x = key then g x else x) xs) = map k xs"
  using assms by (induction xs) auto

lemma upsert_row:
  assumes "uniqueEin d" and "upsert v d = (c, d1)"
  shows "filter (\<lambda>r. company_row.ein r = company_info.ein (info v)) (companies d1) = [toRow c v]"
    and "uniqueEin d1"
    and "db.personnel d1 = db.personnel d"
    and "expense_categories d1 = expense_categories d"
proof -
  let ?key = "company_info.ein (info v)"
  let ?P = "\<lambda>r. company_row.ein r = ?key"
  show "filter ?P (companies d1) = [toRow c v]"
  proof (cases "find ?P (companies d)")
    case None
    then have "filter ?P (companies d) = []" by (rule find_None_filter)
    then show ?thesis using assms(2) None by (auto simp: upsert_def)
  next
    case (Some r)
    then have r: "r \<in> set (companies d)" "company_row.ein r = ?key"
      by (auto simp: find_Some_iff)
    have c: "c = id' r" and d1: "companies d1 =
        map (\<lambda>r'. if company_row.ein r' = ?key then toRow (id' r') v else r') (companies d)"
      using assms(2) Some by (auto simp: upsert_def)
    have "filter ?P (companies d1) = [toRow (id' r) v]"
      unfolding d1
      by (rule filter_key_map_replace [where k = company_row.ein and g = "\<lambda>x. toRow (id' x) v"])
         (use assms(1) r in \<open>simp_all add: uniqueEin_def\<close>)
    then show ?thesis using c by simp
  qed
  show "uniqueEin d1"
  proof (cases "find ?P (companies d)")
    case None
    then have "filter ?P (companies d) = []" by (rule find_None_filter)
    then have "?key \<notin> company_row.ein ` set (companies d)"
      by (auto simp: filter_empty_conv)
    then show ?thesis using assms None by (auto simp: upsert_def uniqueEin_def)
  next
    case (Some r)
    have d1: "companies d1 =
        map (\<lambda>r'. if company_row.ein r' = ?key then toRow (id' r') v else r') (companies d)"
      using assms(2) Some by (auto simp: upsert_def)
    have "map company_row.ein (companies d1) = map company_row.ein (companies d)"
      unfolding d1
      by (rule map_key_map_replace [where k = company_row.ein and g = "\<lambda>x. toRow (id' x) v"]) simp
    then show ?thesis using assms(1) by (simp add: uniqueEin_def)
  qed
  show "db.personnel d1 = db.personnel d"
    using assms(2) by (auto simp: upsert_def split: option.splits)
  show "expense_categories d1 = expense_categories d"
    using assms(2) by (auto simp: upsert_def split: option.splits)
qed

lemma upsert_existing_length:
  assumes "upsert v d = (c, d1)"
      and "company_info.ein (info v) \<in> company_row.ein ` set (companies d)"
  shows "length (companies d1) = length (companies d)"
proof -
  let ?P = "\<lambda>r. company_row.ein r = company_info.ein (info v)"
  have "find ?P (companies d) \<noteq> None"
    using assms(2) by (auto simp: find_None_iff)
  then show ?thesis using assms(1) by (auto simp: upsert_def)
qed

lemma upsert_rows_with_key:
  assumes "upsert v d = (c, d1)" and "r \<in> set (companies d1)"
      and "company_row.ein r = company_info.ein (info v)"
  shows "\<exists>i. r = toRow i v"
proof (cases "find (\<lambda>r. company_row.ein r = company_info.ein (info v)) (companies d)")
  case None
  then have no: "\<forall>x\<in>set (companies d). company_row.ein x \<noteq> company_info.ein (info v)"
    by (auto simp: find_None_iff)
  have "companies d1 = companies d @ [toRow (nextId d) v]"
    using assms(1) None by (auto simp: upsert_def)
  then show ?thesis using assms(2,3) no by auto
next
  case (Some x)
  have "companies d1 =
        map (\<lambda>r'. if company_row.ein r' = company_info.ein (info v) then toRow (id' r') v else r')
            (companies d)"
    using assms(1) Some by (auto simp: upsert_def)
  then show ?thesis using assms(2,3) by (auto split: if_splits)
qed

lemma upsert_rows_other:
  assumes "upsert v d = (c, d1)" and "r \<in> set (companies d1)"
  shows "r \<in> set (companies d) \<or> (\<exists>i. r = toRow i v)"
  using assms by (auto simp: upsert_def split: option.splits if_splits)

text \<open>Deleting the children of a parent and inserting new ones leaves exactly the new ones.\<close>

lemma filter_child_replace:
  assumes "\<And>x. x \<in> set new \<Longrightarrow> k x = c"
  shows "filter (\<lambda>x. k x = c) (filter (\<lambda>x. k x \<noteq> c) old @ new) = new"
proof -
  have "filter (\<lambda>x. k x = c) (filter (\<lambda>x. k x \<noteq> c) old) = []"
    by (induction old) auto
  moreover have "filter (\<lambda>x. k x = c) new = new"
    using assms by (induction new) auto
  ultimately show ?thesis by simp
qed

lemma saveToDatabase_companies:
  assumes "saveToDatabase e pd d = Inr d'"
  shows "\<exists>c d1. upsert (upsertValues e (company pd)) d = (c, d1) \<and> companies d' = companies d1"
  using assms
  by (auto simp: saveToDatabase_def Let_def destroyPersonnel_def destroyExpenseCategory_def
        bulkCreatePersonnel_def bulkCreateExpenseCategory_def
      split: if_splits option.splits prod.splits)

lemma saveToDatabase_result:
  assumes "uniqueEin d" and "saveToDatabase e pd d = Inr d'"
  shows "\<exists>c. filter (\<lambda>r. company_row.ein r = company_info.ein (info (company pd))) (companies d')
               = [toRow c (upsertValues e (company pd))]
             \<and> filter (\<lambda>p. personnel_row.companyId p = c) (db.personnel d')
                 = map storedPersonnel (personnelData c pd)
             \<and> filter (\<lambda>x. expense_row.companyId x = c) (expense_categories d')
                 = map storedExpenseCategory (expenseData c pd)
             \<and> uniqueEin d'
             \<and> (company_info.ein (info (company pd)) \<in> company_row.ein ` set (companies d)
                  \<longrightarrow> length (companies d') = length (companies d))"
proof -
  let ?v = "upsertValues e (company pd)"
  obtain c d1 where u: "upsert ?v d = (c, d1)" by (cases "upsert ?v d")
  note r = upsert_row [OF assms(1) u]
  have comp: "companies d' = companies d1"
    and pers: "db.personnel d' = filter (\<lambda>p. personnel_row.companyId p \<noteq> c) (db.personnel d1)
                                  @ map storedPersonnel (personnelData c pd)"
    and exps: "expense_categories d' =
                 filter (\<lambda>x. expense_row.companyId x \<noteq> c) (expense_categories d1)
                 @ map storedExpenseCategory (expenseData c pd)"
    using assms(2) u
    by (auto simp: saveToDatabase_def Let_def destroyPersonnel_def destroyExpenseCategory_def
          bulkCreatePersonnel_def bulkCreateExpenseCategory_def personnelData_def expenseData_def
        split: if_splits option.splits)
  have "filter (\<lambda>r. company_row.ein r = company_info.ein (info (company pd))) (companies d')
          = [toRow c ?v]"
    using r(1) comp by simp
  moreover have "filter (\<lambda>p. personnel_row.companyId p = c) (db.personnel d')
                   = map storedPersonnel (personnelData c pd)"
    unfolding pers
    by (rule filter_child_replace) (auto simp: personnelData_def storedPersonnel_def)
  moreover have "filter (\<lambda>x. expense_row.companyId x = c) (expense_categories d')
                   = map storedExpenseCategory (expenseData c pd)"
    unfolding exps
    by (rule filter_child_replace) (auto simp: expenseData_def storedExpenseCategory_def)
  moreover have "uniqueEin d'" using r(2) comp by (simp add: uniqueEin_def)
  moreover have "company_info.ein (info (company pd)) \<in> company_row.ein ` set (companies d)
                  \<longrightarrow> length (companies d') = length (companies d)"
    using upsert_existing_length [OF u] comp by simp
  ultimately show ?thesis by blast
qed

text \<open>
  C4. Persisting a mapped record and then a record with the same \<open>ein\<close> (the same record
  again, in particular): after the second save the table holds exactly one organization
  row for that \<open>ein\<close>, the second save has added no row, every scalar column of the row
  holds the value of the second record (a decimal as its hundredths, \<open>taxYear\<close> with the
  current year for a missing one), and the personnel rows and the expense-category rows
  of that organization are, one for one and in order, the personnel and the expenses of
  the second record: what the first save had stored for it is gone.
\<close>

theorem saveToDatabase_twice:
  assumes "uniqueEin d"
      and "saveToDatabase e x d = Inr d1"
      and "saveToDatabase e y d1 = Inr d2"
      and "company_info.ein (info (company x)) = company_info.ein (info (company y))"
  shows "\<exists>r. filter (\<lambda>r'. company_row.ein r' = company_info.ein (info (company y))) (companies d2)
               = [r]
             \<and> length (companies d2) = length (companies d1)
             \<and> company_row.name r = company_info.name (info (company y))
             \<and> company_row.website r = company_info.website (info (company y))
             \<and> company_row.mission r = company_info.mission (info (company y))
             \<and> company_row.filingDate r = company_info.filingDate (info (company y))
             \<and> company_row.taxYear r
                 = CNumber (of_int (nearest (numOr (company_info.taxYear (info (company y)))
                                                  (of_int (currentYear e)))))
             \<and> company_row.currentRevenue r
                 = CDecimal (hundredths (financial_data.currentRevenue (financial (company y))))
             \<and> company_row.currentExpenses r
                 = CDecimal (hundredths (financial_data.currentExpenses (financial (company y))))
             \<and> company_row.currentAssets r
                 = CDecimal (hundredths (financial_data.currentAssets (financial (company y))))
             \<and> company_row.currentEmployeeCount r
                 = CNumber (of_int (nearest (financial_data.currentEmployeeCount (financial (company y)))))
             \<and> company_row.previousRevenue r
                 = CDecimal (hundredths (financial_data.previousRevenue (financial (company y))))
             \<and> company_row.previousExpenses r
                 = CDecimal (hundredths (financial_data.previousExpenses (financial (company y))))
             \<and> company_row.previousAssets r
                 = CDecimal (hundredths (financial_data.previousAssets (financial (company y))))
             \<and> company_row.previousEmployeeCount r
                 = CNumber (of_int (nearest (financial_data.previousEmployeeCount (financial (company y)))))
             \<and> filter (\<lambda>p. personnel_row.companyId p = id' r) (db.personnel d2)
                 = map (\<lambda>p. \<lparr>personnel_row.companyId = id' r,
                              fullName = personnel_data.fullName p,
                              title = personnel_data.title p,
                              compensation = hundredths (personnel_data.compensation p)\<rparr>)
                       (parsed_data.personnel y)
             \<and> filter (\<lambda>z. expense_row.companyId z = id' r) (expense_categories d2)
                 = map (\<lambda>z. \<lparr>expense_row.companyId = id' r,
                              category = expense_data.category z,
                              amount = hundredths (expense_data.amount z),
                              taxYear = nearest (company_info.taxYear (info (company y)))\<rparr>)
                       (parsed_data.expenses y)"
proof -
  obtain c1 where one:
      "filter (\<lambda>r. company_row.ein r = company_info.ein (info (company x))) (companies d1)
         = [toRow c1 (upsertValues e (company x))]"
    and u1: "uniqueEin d1"
    using saveToDatabase_result [OF assms(1,2)] by blast
  have "toRow c1 (upsertValues e (company x))
          \<in> set (filter (\<lambda>r. company_row.ein r = company_info.ein (info (company x))) (companies d1))"
    unfolding one by simp
  then have "toRow c1 (upsertValues e (company x)) \<in> set (companies d1)"
    by simp
  then have "company_info.ein (info (company y)) \<in> company_row.ein ` set (companies d1)"
    using assms(4) by force
  then obtain c where
      row: "filter (\<lambda>r. company_row.ein r = company_info.ein (info (company y))) (companies d2)
              = [toRow c (upsertValues e (company y))]"
    and pers: "filter (\<lambda>p. personnel_row.companyId p = c) (db.personnel d2)
                 = map storedPersonnel (personnelData c y)"
    and exps: "filter (\<lambda>z. expense_row.companyId z = c) (expense_categories d2)
                 = map storedExpenseCategory (expenseData c y)"
    and len: "length (companies d2) = length (companies d1)"
    using saveToDatabase_result [OF u1 assms(3)] by blast
  let ?r = "toRow c (upsertValues e (company y))"
  have i: "id' ?r = c" by (simp add: toRow_def)
  show ?thesis
  proof (intro exI [of _ ?r] conjI)
    show "filter (\<lambda>r'. company_row.ein r' = company_info.ein (info (company y))) (companies d2)
            = [?r]"
      using row .
    show "length (companies d2) = length (companies d1)" using len .
    show "filter (\<lambda>p. personnel_row.companyId p = id' ?r) (db.personnel d2)
            = map (\<lambda>p. \<lparr>personnel_row.companyId = id' ?r,
                         fullName = personnel_data.fullName p,
                         title = personnel_data.title p,
                         compensation = hundredths (personnel_data.compensation p)\<rparr>)
                  (parsed_data.personnel y)"
      unfolding i using pers by (simp add: personnelData_def storedPersonnel_def)
    show "filter (\<lambda>z. expense_row.companyId z = id' ?r) (expense_categories d2)
            = map (\<lambda>z. \<lparr>expense_row.companyId = id' ?r,
                         category = expense_data.category z,
                         amount = hundredths (expense_data.amount z),
                         taxYear = nearest (company_info.taxYear (info (company y)))\<rparr>)
                  (parsed_data.expenses y)"
      unfolding i using exps by (simp add: expenseData_def storedExpenseCategory_def)
  qed (simp_all add: toRow_def upsertValues_def)
qed

theorem saveToDatabase_twice_witness:
  "uniqueEin emptyDb
   \<and> saveToDatabase (exampleEnv []) exampleParsed emptyDb = Inr savedOnce
   \<and> saveToDatabase (exampleEnv []) exampleParsed savedOnce = Inr savedTwice
   \<and> parsed_data.personnel exampleParsed
       = [\<lparr>personnel_data.fullName = JStr ''Ann Lee'', title = JStr ''CEO'', compensation = 1050\<rparr>]
   \<and> parsed_data.expenses exampleParsed
       = [\<lparr>expense_data.category = ''Legal fees'', amount = 500\<rparr>]
   \<and> savedTwice = savedOnce
   \<and> companies savedTwice
       = [\<lparr>company_row.id' = 1, ein = JStr ''123456789'', name = JStr ''Helping Hands'',
           website = JNull, mission = JNull,
           currentRevenue = CDecimal 15000000, currentExpenses = CDecimal 9000000,
           currentAssets = CDecimal 0, currentEmployeeCount = CNumber 0,
           previousRevenue = CDecimal 12000000, previousExpenses = CDecimal 10000000,
           previousAssets = CDecimal 0, previousEmployeeCount = CNumber 0,
           taxYear = CNumber 2022, filingDate = JNull\<rparr>]
   \<and> db.personnel savedTwice
       = [\<lparr>personnel_row.companyId = 1, fullName = JStr ''Ann Lee'', title = JStr ''CEO'',
           compensation = 105000\<rparr>]
   \<and> expense_categories savedTwice
       = [\<lparr>expense_row.companyId = 1, category = ''Legal fees'', amount = 50000,
           taxYear = 2022\<rparr>]
   \<and> (\<exists>r. filter (\<lambda>r'. company_row.ein r' = company_info.ein (info (company exampleParsed)))
               (companies savedTwice) = [r]
           \<and> length (companies savedTwice) = length (companies savedOnce)
           \<and> company_row.currentRevenue r
               = CDecimal (hundredths
                   (financial_data.currentRevenue (financial (company exampleParsed))))
           \<and> filter (\<lambda>p. personnel_row.companyId p = id' r) (db.personnel savedTwice)
               = map (\<lambda>p. \<lparr>personnel_row.companyId = id' r,
                            fullName = personnel_data.fullName p,
                            title = personnel_data.title p,
                            compensation = hundredths (personnel_data.compensation p)\<rparr>)
                     (parsed_data.personnel exampleParsed)
           \<and> filter (\<lambda>z. expense_row.companyId z = id' r) (expense_categories savedTwice)
               = map (\<lambda>z. \<lparr>expense_row.companyId = id' r,
                            category = expense_data.category z,
                            amount = hundredths (expense_data.amount z),
                            taxYear = nearest
                              (company_info.taxYear (info (company exampleParsed)))\<rparr>)
                     (parsed_data.expenses exampleParsed))"
proof -
  have u: "uniqueEin emptyDb" by code_simp
  have s1: "saveToDatabase (exampleEnv []) exampleParsed emptyDb = Inr savedOnce" by code_simp
  have s2: "saveToDatabase (exampleEnv []) exampleParsed savedOnce = Inr savedTwice" by code_simp
  have p: "parsed_data.personnel exampleParsed
       = [\<lparr>personnel_data.fullName = JStr ''Ann Lee'', title = JStr ''CEO'', compensation = 1050\<rparr>]"
    by code_simp
  have x: "parsed_data.expenses exampleParsed
       = [\<lparr>expense_data.category = ''Legal fees'', amount = 500\<rparr>]"
    by code_simp
  have same: "savedTwice = savedOnce" by code_simp
  have c: "companies savedTwice
       = [\<lparr>company_row.id' = 1, ein = JStr ''123456789'', name = JStr ''Helping Hands'',
           website = JNull, mission = JNull,
           currentRevenue = CDecimal 15000000, currentExpenses = CDecimal 9000000,
           currentAssets = CDecimal 0, currentEmployeeCount = CNumber 0,
           previousRevenue = CDecimal 12000000, previousExpenses = CDecimal 10000000,
           previousAssets = CDecimal 0, previousEmployeeCount = CNumber 0,
           taxYear = CNumber 2022, filingDate = JNull\<rparr>]"
    by code_simp
  have ps: "db.personnel savedTwice
       = [\<lparr>personnel_row.companyId = 1, fullName = JStr ''Ann Lee'', title = JStr ''CEO'',
           compensation = 105000\<rparr>]"
    by code_simp
  have xs: "expense_categories savedTwice
       = [\<lparr>expense_row.companyId = 1, category = ''Legal fees'', amount = 50000,
           taxYear = 2022\<rparr>]"
    by code_simp
  from saveToDatabase_twice [OF u s1 s2 refl]
  have t: "\<exists>r. filter (\<lambda>r'. company_row.ein r' = company_info.ein (info (company exampleParsed)))
               (companies savedTwice) = [r]
           \<and> length (companies savedTwice) = length (companies savedOnce)
           \<and> company_row.currentRevenue r
               = CDecimal (hundredths
                   (financial_data.currentRevenue (financial (company exampleParsed))))
           \<and> filter (\<lambda>p. personnel_row.companyId p = id' r) (db.personnel savedTwice)
               = map (\<lambda>p. \<lparr>personnel_row.companyId = id' r,
                            fullName = personnel_data.fullName p,
                            title = personnel_data.title p,
                            compensation = hundredths (personnel_data.compensation p)\<rparr>)
                     (parsed_data.personnel exampleParsed)
           \<and> filter (\<lambda>z. expense_row.companyId z = id' r) (expense_categories savedTwice)
               = map (\<lambda>z. \<lparr>expense_row.companyId = id' r,
                            category = expense_data.category z,
                            amount = hundredths (expense_data.amount z),
                            taxYear = nearest
                              (company_info.taxYear (info (company exampleParsed)))\<rparr>)
                     (parsed_data.expenses exampleParsed)"
    by blast
  show ?thesis
    by (intro conjI u s1 s2 p x same c ps xs t)
qed

section \<open>The ingestion run\<close>

lemma parse_ein_truthy:
  "parse yr c = Some pd \<Longrightarrow> truthy (company_info.ein (info (company pd)))"
  unfolding parse_def Let_def
  by (auto split: sum.splits if_splits)

lemma saveToDatabase_ok:
  assumes "truthy (company_info.ein (info (company pd)))"
      and "upsertError e (upsertValues e (company pd)) = None"
  shows "\<exists>d'. saveToDatabase e pd d = Inr d'"
  using assms unfolding saveToDatabase_def Let_def
  by (simp split: prod.splits)

lemma processXmlFile_unmapped:
  assumes "quiet e f" and "\<not> mapped e f"
  shows "processXmlFile e f (st, d) = (None, st\<lparr>processed := processed st + 1\<rparr>, d)"
  using assms unfolding processXmlFile_def quiet_def mapped_def Let_def
  by (simp split: sum.splits option.splits)

lemma processXmlFile_mapped:
  assumes "quiet e f" and "mapped e f"
  shows "\<exists>d'. processXmlFile e f (st, d) =
           (None, st\<lparr>processed := processed st + 1, saved := saved st + 1\<rparr>, d')"
proof -
  obtain c pd where c: "fileContent f = Inr c" and p: "parse (currentYear e) c = Some pd"
    using assms(2) unfolding mapped_def by (auto split: sum.splits)
  have u: "upsertError e (upsertValues e (company pd)) = None"
    using assms(1) c p unfolding quiet_def by simp
  obtain d' where s: "saveToDatabase e pd d = Inr d'"
    using saveToDatabase_ok [OF parse_ein_truthy [OF p] u] by blast
  show ?thesis
    unfolding processXmlFile_def Let_def using c p s by simp
qed

text \<open>
  The loop over quiet documents: it ends without an exception, the error list stays
  empty, and without a limit every document is attempted and exactly the mapped ones are
  saved.
\<close>

lemma processFiles_quiet:
  assumes "\<forall>f\<in>set fs. quiet e f" and "errors st = ErrArr []"
  shows "\<exists>st' d'. processFiles e mx fs (st, d) = (None, st', d')
           \<and> errors st' = ErrArr []
           \<and> totalFiles st' = totalFiles st
           \<and> processed st' \<le> processed st + length fs
           \<and> saved st' + processed st \<le> saved st + processed st'
           \<and> (\<not> limited mx \<longrightarrow>
                 processed st' = processed st + length fs
                 \<and> saved st' = saved st + length (filter (mapped e) fs))"
  using assms
proof (induction fs arbitrary: st d)
  case Nil
  then show ?case by simp
next
  case (Cons f fs)
  have qf: "quiet e f" and qfs: "\<forall>f\<in>set fs. quiet e f"
    using Cons.prems(1) by simp_all
  show ?case
  proof (cases "mapped e f")
    case False
    let ?st1 = "st\<lparr>processed := processed st + 1\<rparr>"
    have step: "processXmlFile e f (st, d) = (None, ?st1, d)"
      using processXmlFile_unmapped [OF qf False] .
    have e1: "errors ?st1 = ErrArr []" using Cons.prems(2) by simp
    show ?thesis
    proof (cases "limited mx \<and> saved ?st1 \<ge> the mx")
      case True
      then show ?thesis using step Cons.prems(2) by simp
    next
      case stop: False
      obtain st' d' where r: "processFiles e mx fs (?st1, d) = (None, st', d')"
        and i: "errors st' = ErrArr []" "totalFiles st' = totalFiles ?st1"
               "processed st' \<le> processed ?st1 + length fs"
               "saved st' + processed ?st1 \<le> saved ?st1 + processed st'"
               "\<not> limited mx \<longrightarrow> processed st' = processed ?st1 + length fs
                  \<and> saved st' = saved ?st1 + length (filter (mapped e) fs)"
        using Cons.IH [OF qfs e1, of d] by blast
      have "processFiles e mx (f # fs) (st, d) = (None, st', d')"
        using step stop r by auto
      then show ?thesis using i False by simp
    qed
  next
    case True
    let ?st1 = "st\<lparr>processed := processed st + 1, saved := saved st + 1\<rparr>"
    obtain d1 where step: "processXmlFile e f (st, d) = (None, ?st1, d1)"
      using processXmlFile_mapped [OF qf True] by blast
    have e1: "errors ?st1 = ErrArr []" using Cons.prems(2) by simp
    show ?thesis
    proof (cases "limited mx \<and> saved ?st1 \<ge> the mx")
      case stop: True
      then show ?thesis using step Cons.prems(2) by simp
    next
      case stop: False
      obtain st' d' where r: "processFiles e mx fs (?st1, d1) = (None, st', d')"
        and i: "errors st' = ErrArr []" "totalFiles st' = totalFiles ?st1"
               "processed st' \<le> processed ?st1 + length fs"
               "saved st' + processed ?st1 \<le> saved ?st1 + processed st'"
               "\<not> limited mx \<longrightarrow> processed st' = processed ?st1 + length fs
                  \<and> saved st' = saved ?st1 + length (filter (mapped e) fs)"
        using Cons.IH [OF qfs e1, of d1] by blast
      have "processFiles e mx (f # fs) (st, d) = (None, st', d')"
        using step stop r by auto
      then show ?thesis using i True by simp
    qed
  qed
qed

text \<open>
  C1, as the code has it. Once per-document processing has begun (the archive is
  downloaded and expanded, the candidates are listed), a document that cannot be mapped
  (unparseable XML, no recognized form variant, no EIN) is skipped: it counts as
  processed, it is not saved, nothing is added to the error list, and the loop goes on
  to the next candidate. A run in which no document raises an exception completes and
  returns its statistics, with an empty error list; without a limit it attempts every
  candidate and saves exactly the mapped ones.
\<close>

theorem processDataset_unmapped_documents_skipped:
  assumes "download e irsZipUrl = None"
      and "extraction e = Extracted"
      and "xmlFiles e = Inr files"
      and "\<forall>f\<in>set files. quiet e f"
  shows "\<exists>st w'. processDataset e irsZipUrl maxCompanies w = (Inr st, w')
           \<and> errors st = ErrArr []
           \<and> totalFiles st = length files
           \<and> saved st \<le> processed st
           \<and> processed st \<le> length files
           \<and> (\<not> limited maxCompanies \<longrightarrow>
                 processed st = length files
                 \<and> saved st = length (filter (mapped e) files))"
proof -
  let ?st1 = "\<lparr>totalFiles = length files, processed = 0, saved = 0, errors = ErrArr []\<rparr>"
  let ?fs = "if limited maxCompanies then take (the maxCompanies) files else files"
  let ?d = "database w"
  have q: "\<forall>f\<in>set ?fs. quiet e f"
    using assms(4) by (auto dest: in_set_takeD)
  have len: "length ?fs \<le> length files" by simp
  obtain st' d' where r: "processFiles e maxCompanies ?fs (?st1, ?d) = (None, st', d')"
    and i: "errors st' = ErrArr []" "totalFiles st' = totalFiles ?st1"
           "processed st' \<le> processed ?st1 + length ?fs"
           "saved st' + processed ?st1 \<le> saved ?st1 + processed st'"
           "\<not> limited maxCompanies \<longrightarrow> processed st' = processed ?st1 + length ?fs
              \<and> saved st' = saved ?st1 + length (filter (mapped e) ?fs)"
    using processFiles_quiet [OF q, of ?st1 maxCompanies ?d] by auto
  have "processDataset e irsZipUrl maxCompanies w =
          (Inr st', w\<lparr>archiveFile := False, extractDir := False, database := d'\<rparr>)"
    unfolding processDataset_def Let_def using assms(1-3) r by simp
  moreover have "processed st' \<le> length files" using i(3) len by simp
  moreover have "saved st' \<le> processed st'" using i(4) by simp
  ultimately show ?thesis using i by auto
qed

theorem processDataset_unmapped_documents_skipped_witness:
  "\<exists>st w'. processDataset
              (exampleEnv [goodFile ''a.xml'', malformedFile ''b.xml'', singleYearFile])
              ''https://example.org/irs.zip'' None freshWorld = (Inr st, w')
           \<and> errors st = ErrArr []
           \<and> totalFiles st = 3
           \<and> processed st = 3
           \<and> saved st = 2"
proof -
  let ?files = "[goodFile ''a.xml'', malformedFile ''b.xml'', singleYearFile]"
  let ?e = "exampleEnv ?files"
  have d: "download ?e ''https://example.org/irs.zip'' = None" by code_simp
  have x: "extraction ?e = Extracted" by code_simp
  have l: "xmlFiles ?e = Inr ?files" by (simp add: exampleEnv_def)
  have q: "\<forall>f\<in>set ?files. quiet ?e f" by code_simp
  have m: "length (filter (mapped ?e) ?files) = 2" by code_simp
  have n: "\<not> limited None" by simp
  show ?thesis
    using processDataset_unmapped_documents_skipped [OF d x l q, of None freshWorld] m n
    by auto
qed

text \<open>
  The claim C1 has every per-document failure recorded in the error list: a run over one
  unparseable document returns an empty error list.
\<close>

theorem unparseable_document_not_recorded:
  "\<not> mapped (exampleEnv [malformedFile ''b.xml'']) (malformedFile ''b.xml'')
   \<and> fst (processDataset (exampleEnv [malformedFile ''b.xml'']) ''https://example.org/irs.zip''
          None freshWorld)
     = Inr \<lparr>totalFiles = 1, processed = 1, saved = 0, errors = ErrArr []\<rparr>"
  by code_simp

text \<open>
  The first exception of a document ends the loop: the \<open>catch\<close> block itself throws.
\<close>

lemma processFiles_exception_leaves_loop:
  assumes "processXmlFile e f (st, d) = (Some err, st1, d1)" and "errors st1 = ErrArr []"
  shows "processFiles e mx (f # fs) (st, d) =
           (Some (TypeError ''stats.errors.push is not a function''),
            st1\<lparr>errors := ErrNum 1\<rparr>, d1)"
  using assms by (simp add: Let_def)

lemma processDataset_extraction_fails:
  assumes "download e u = None" and "extraction e = StreamError err"
  shows "processDataset e u mx w = (Inl err, w\<lparr>archiveFile := False, extractDir := True\<rparr>)"
  using assms by (simp add: processDataset_def)

text \<open>
  C6. Both the archive and the directory it is expanded into are to be gone on every
  exit path. When the extraction fails, and when a document raises an exception (the
  \<open>catch\<close> of the loop turns \<open>stats.errors\<close> into a number and then calls \<open>push\<close> on it), the
  run throws with the archive removed and the directory still there.
\<close>

theorem processDataset_failure_leaves_extract_directory:
  "processDataset ((exampleEnv [])\<lparr>extraction := StreamError (Error ''Cannot open the file as archive'')\<rparr>)
      ''https://example.org/irs.zip'' None freshWorld
     = (Inl (Error ''Cannot open the file as archive''),
        \<lparr>archiveFile = False, extractDir = True, database = emptyDb\<rparr>)
   \<and> processDataset (exampleEnv [unreadableFile ''a.xml''])
      ''https://example.org/irs.zip'' None freshWorld
     = (Inl (TypeError ''stats.errors.push is not a function''),
        \<lparr>archiveFile = False, extractDir = True, database = emptyDb\<rparr>)
   \<and> processDataset ((exampleEnv [goodFile ''a.xml''])
                        \<lparr>upsertError := (\<lambda>v. Some (Error ''Data too long for column name''))\<rparr>)
      ''https://example.org/irs.zip'' None freshWorld
     = (Inl (TypeError ''stats.errors.push is not a function''),
        \<lparr>archiveFile = False, extractDir = True, database = emptyDb\<rparr>)"
  by code_simp

subsection \<open>Rows written by the run\<close>

lemma extractNumber_zero [simp]: "extractNumber (JNum 0) = 0"
  by (simp add: extractNumber_def)

lemma extractFinancialData_no_prior:
  assumes "noPriorYearFigures irs990" and "extractFinancialData irs990 = Inr f"
  shows "financial_data.previousRevenue f = 0 \<and> financial_data.previousExpenses f = 0
         \<and> financial_data.previousAssets f = 0 \<and> financial_data.previousEmployeeCount f = 0"
proof -
  have n: "\<not> nullish irs990"
    using assms(2) by (auto simp: extractFinancialData_def split: if_splits)
  have f: "f = projr (extractFinancialData irs990)" using assms(2) by simp
  show ?thesis
    unfolding f using n assms(1)
    by (simp add: extractFinancialData_def noPriorYearFigures_def)
qed

lemma saveToDatabase_rows_with_key:
  assumes "saveToDatabase e pd d = Inr d'" and "r \<in> set (companies d')"
      and "company_row.ein r = company_info.ein (info (company pd))"
  shows "\<exists>i. r = toRow i (upsertValues e (company pd))"
proof -
  obtain c d1 where u: "upsert (upsertValues e (company pd)) d = (c, d1)"
      and cs: "companies d' = companies d1"
    using saveToDatabase_companies [OF assms(1)] by blast
  show ?thesis
    using upsert_rows_with_key [OF u] assms(2,3) cs by simp
qed

lemma saveToDatabase_preserves:
  assumes "\<forall>r\<in>set (companies d). hasPreviousData r" and "saveToDatabase e pd d = Inr d'"
  shows "\<forall>r\<in>set (companies d'). hasPreviousData r"
proof -
  obtain c d1 where u: "upsert (upsertValues e (company pd)) d = (c, d1)"
      and cs: "companies d' = companies d1"
    using saveToDatabase_companies [OF assms(2)] by blast
  show ?thesis
  proof
    fix r assume "r \<in> set (companies d')"
    then have "r \<in> set (companies d) \<or> (\<exists>i. r = toRow i (upsertValues e (company pd)))"
      using upsert_rows_other [OF u] cs by simp
    then show "hasPreviousData r" using assms(1) by auto
  qed
qed

lemma processXmlFile_preserves:
  assumes "\<forall>r\<in>set (companies d). hasPreviousData r"
      and "processXmlFile e f (st, d) = (res, st', d')"
  shows "\<forall>r\<in>set (companies d'). hasPreviousData r"
  using assms saveToDatabase_preserves [OF assms(1)]
  unfolding processXmlFile_def Let_def
  by (auto split: sum.splits option.splits)

lemma processFiles_preserves:
  assumes "\<forall>r\<in>set (companies d). hasPreviousData r"
      and "processFiles e mx fs (st, d) = (res, st', d')"
  shows "\<forall>r\<in>set (companies d'). hasPreviousData r"
  using assms
proof (induction fs arbitrary: st d)
  case Nil
  then show ?case by simp
next
  case (Cons f fs)
  obtain r1 st1 d1 where step: "processXmlFile e f (st, d) = (r1, st1, d1)"
    by (cases "processXmlFile e f (st, d)") auto
  have inv1: "\<forall>r\<in>set (companies d1). hasPreviousData r"
    using processXmlFile_preserves [OF Cons.prems(1) step] .
  show ?case
  proof (cases r1)
    case None
    show ?thesis
    proof (cases "limited mx \<and> saved st1 \<ge> the mx")
      case True
      then have "d' = d1" using Cons.prems(2) step None by simp
      then show ?thesis using inv1 by simp
    next
      case False
      then have "processFiles e mx fs (st1, d1) = (res, st', d')"
        using Cons.prems(2) step None by auto
      then show ?thesis using Cons.IH [OF inv1] by blast
    qed
  next
    case (Some err)
    let ?st2 = "st1\<lparr>errors := increment (errors st1)\<rparr>"
    let ?m = "''Error processing file '' @ baseName f @ '': '' @ message err"
    show ?thesis
    proof (cases "push (errors ?st2) ?m")
      case (Inl thrown)
      then have "d' = d1" using Cons.prems(2) step Some by (simp add: Let_def)
      then show ?thesis using inv1 by simp
    next
      case (Inr es)
      then have "processFiles e mx fs (?st2\<lparr>errors := es\<rparr>, d1) = (res, st', d')"
        using Cons.prems(2) step Some by (simp add: Let_def)
      then show ?thesis using Cons.IH [OF inv1] by blast
    qed
  qed
qed

lemma processDataset_preserves:
  assumes "\<forall>r\<in>set (companies (database w)). hasPreviousData r"
  shows "\<forall>r\<in>set (companies (database (snd (processDataset e u mx w)))). hasPreviousData r"
proof (cases "download e u")
  case (Some err)
  then show ?thesis using assms by (simp add: processDataset_def)
next
  case None
  show ?thesis
  proof (cases "extraction e")
    case (MkdirError err)
    then show ?thesis using assms None by (simp add: processDataset_def)
  next
    case (StreamError err)
    then show ?thesis using assms None by (simp add: processDataset_def)
  next
    case Extracted
    show ?thesis
    proof (cases "xmlFiles e")
      case (Inl err)
      then show ?thesis using assms None Extracted by (simp add: processDataset_def)
    next
      case (Inr files)
      let ?fs = "if limited mx then take (the mx) files else files"
      let ?st1 = "\<lparr>totalFiles = length files, processed = 0, saved = 0, errors = ErrArr []\<rparr>"
      obtain res st' d' where r: "processFiles e mx ?fs (?st1, database w) = (res, st', d')"
        by (cases "processFiles e mx ?fs (?st1, database w)") auto
      have inv: "\<forall>r\<in>set (companies d'). hasPreviousData r"
        using processFiles_preserves [OF assms r] .
      have "database (snd (processDataset e u mx w)) = d'"
        using None Extracted Inr r
        by (cases res) (simp_all add: processDataset_def Let_def)
      then show ?thesis using inv by simp
    qed
  qed
qed

text \<open>
  C9. Every record the mapper produces has its four previous-year fields set to numbers,
  0 when the form supplies no prior-year figure, and the null check of the read endpoints
  never fires on a row that the run has written; so far the code agrees. The delta pairs
  of such a row are then to be computed, never null. For the first-time filing the row
  comes back with the string \<open>'0.00'\<close> in its three decimal previous-year columns, the
  guard \<open>previous === 0\<close> does not hold for a string, and the division by zero gives an
  infinity for the revenue and \<open>NaN\<close> for the expenses and the assets: the client reads
  three null percentages.
\<close>

theorem first_filing_percentages_not_computed:
  "noPriorYearFigures singleYearForm
   \<and> financial_data.previousRevenue (financial (company singleYearParsed)) = 0
   \<and> financial_data.previousExpenses (financial (company singleYearParsed)) = 0
   \<and> financial_data.previousAssets (financial (company singleYearParsed)) = 0
   \<and> financial_data.previousEmployeeCount (financial (company singleYearParsed)) = 0
   \<and> companies (database singleYearWorld) = [singleYearRow]
   \<and> company_row.previousRevenue singleYearRow = CDecimal 0
   \<and> decimalText 0 = ''0.00''
   \<and> hasPreviousData singleYearRow
   \<and> detailDeltas singleYearRow = companyDeltas singleYearRow
   \<and> revenue (companyDeltas singleYearRow)
       = \<lparr>absolute = Some (Finite 5000), percentage = Some PlusInfinity\<rparr>
   \<and> deltas.expenses (companyDeltas singleYearRow)
       = \<lparr>absolute = Some (Finite 0), percentage = Some NaN\<rparr>
   \<and> assets (companyDeltas singleYearRow)
       = \<lparr>absolute = Some (Finite 0), percentage = Some NaN\<rparr>
   \<and> employees (companyDeltas singleYearRow)
       = \<lparr>absolute = Some (Finite 0), percentage = Some (Finite 0)\<rparr>
   \<and> json (percentage (revenue (companyDeltas singleYearRow))) = None
   \<and> json (percentage (deltas.expenses (companyDeltas singleYearRow))) = None
   \<and> json (percentage (assets (companyDeltas singleYearRow))) = None
   \<and> map company_with_deltas.deltas
         (records (fst (getAllCompanies plainBackend (database singleYearWorld) noQuery)))
       = [companyDeltas singleYearRow]"
  by code_simp

end
